theory Spec2Isabelle
  imports Complex_Main
begin

section \<open>Domain model (models/Transaction.ts)\<close>

text \<open>
  The enumerations of the source are datatypes, its interfaces are records. An optional
  field (\<open>field?: T\<close>) is an \<open>option\<close>, with \<open>None\<close> for \<open>undefined\<close>.
  A \<open>Date\<close> is the clock reading it holds, a \<open>nat\<close>.

  A TypeScript \<open>number\<close> is the type parameter \<open>'n\<close>. The service adds numbers,
  compares them and writes the literal \<open>0\<close>, so \<open>'n\<close> has \<open>+\<close>, \<open>\<le>\<close> and
  \<open>0\<close> (the syntactic classes \<open>plus\<close>, \<open>ord\<close>, \<open>zero\<close>) and nothing is assumed
  of them: what is proved below holds for every arithmetic, the rounding IEEE doubles of
  JavaScript included, which are the type \<open>double\<close> of the concrete runs.

  The amount of a payment is declared a \<open>number\<close>, but \<open>routes/transactions.ts\<close>
  hands \<open>req.body.amount\<close> to \<open>processPayment\<close> unchecked, so the value can be
  \<open>undefined\<close> at run time: an amount is an \<open>'n option\<close>, \<open>None\<close> for
  \<open>undefined\<close>. Values of other types in that place (strings, objects) are not modelled.

  Fields called \<open>id\<close>, \<open>type\<close>, \<open>method\<close>, \<open>notes\<close> or \<open>description\<close> in
  the source carry the interface's name as a prefix: record fields are global names, and
  \<open>method\<close> and \<open>notes\<close> are keywords.
\<close>

datatype TransactionStatus =
    INITIATED
  | CONTRACT_GENERATED
  | DOCUMENTS_PENDING
  | DOCUMENTS_VERIFIED
  | PAYMENT_PENDING
  | PAYMENT_RECEIVED
  | OWNERSHIP_TRANSFER_PENDING
  | COMPLETED
  | CANCELLED
  | DISPUTED

datatype DocumentType =
    TITLE_DEED
  | IDENTITY_SELLER
  | IDENTITY_BUYER
  | PURCHASE_AGREEMENT
  | MORTGAGE_APPROVAL
  | INSPECTION_REPORT

datatype PaymentMethod = BANK_TRANSFER | ESCROW | MORTGAGE

datatype Role = SELLER | BUYER | AGENT | NOTARY

record 'n GeneratedContract =
  contract_id :: string
  templateVersion :: string
  generatedAt :: nat
  propertyAddress :: string
  sellerName :: string
  buyerName :: string
  agreedPrice :: 'n
  content :: string
  signedAt :: "nat option"
  signedBy :: "string option"

record 'n Property =
  property_id :: string
  address :: string
  price :: 'n
  squareMeters :: 'n
  property_description :: "string option"

record Party =
  party_id :: string
  name :: string
  email :: string
  phoneNumber :: string
  role :: Role

record Document =
  document_id :: string
  document_type :: DocumentType
  uploadedBy :: string
  uploadedAt :: nat
  verified :: bool
  verifiedBy :: "string option"
  verifiedAt :: "nat option"
  document_notes :: "string option"

record 'n Payment =
  payment_id :: string
  amount :: "'n option"
  paidBy :: string
  paidAt :: nat
  payment_method :: PaymentMethod
  reference :: string
  confirmed :: bool

record 'n EscrowAccount =
  escrow_id :: string
  balance :: 'n
  heldSince :: nat
  released :: bool

text \<open>
  The description of an audit event is a template literal of the source. Each constructor
  stands for one template, its arguments are the values interpolated into it, in the
  template's order; how a number or an enumeration value is rendered as text is left out.
\<close>

datatype 'n Description =
    TransactionCreated string
  | PurchaseAgreementGenerated string string
  | EscrowOpened string
  | DocumentUploaded DocumentType string
  | DocumentVerified DocumentType string
  | PaymentSubmitted 'n PaymentMethod string
  | EscrowDeposited 'n
  | PaymentConfirmed string string
  | EscrowFundsReleased 'n
  | PropertyTransferred string string string
  | CancelledBecause string
  | DisputeBecause string
  | ResolutionText string
  | StatusArrow TransactionStatus TransactionStatus

record 'n AuditEvent =
  timestamp :: nat
  actor :: string
  action :: string
  description :: "'n Description"
  previousStatus :: "TransactionStatus option"
  newStatus :: "TransactionStatus option"

record 'n Transaction =
  transaction_id :: string
  property :: "'n Property"
  seller :: Party
  buyer :: Party
  status :: TransactionStatus
  documents :: "Document list"
  payments :: "'n Payment list"
  escrow :: "'n EscrowAccount option"
  auditLog :: "'n AuditEvent list"
  contract :: "'n GeneratedContract option"
  createdAt :: nat
  updatedAt :: nat
  completedAt :: "nat option"
  cancelledAt :: "nat option"
  disputeReason :: "string option"

section \<open>The orchestrator (services/TransactionService.ts)\<close>

text \<open>
  \<open>TransactionService.transactions\<close> is a \<open>Map<string, Transaction>\<close>: a partial map.
  The objects in it are mutated in place, so an assignment to a field of \<open>tx\<close> is an
  update of the store at the key \<open>tx\<close> was read from.

  Every \<open>throw new Error(...)\<close> of the service is one constructor of \<open>error\<close>, with
  the values its message interpolates; \<open>TypeError\<close> is what the runtime throws when a
  method is called on \<open>undefined\<close>. A public operation returns its result (or the
  error) together with the store as it is when the operation returns or throws, so an
  operation that had written before throwing would show the write.

  \<open>uuidv4()\<close> and \<open>new Date()\<close> read the environment: the identifier drawn and the
  clock reading are arguments (\<open>uuid\<close>, \<open>now\<close>), one clock reading per public call.
\<close>

type_synonym 'n store = "string \<rightharpoonup> 'n Transaction"

datatype error =
    TransactionNotFound string
  | EscrowAlreadyOpen
  | InvalidStatus string TransactionStatus "TransactionStatus list"
  | DocumentNotFound string
  | DocumentAlreadyVerified string
  | AmountNotPositive
  | PaymentNotFound string
  | PaymentAlreadyConfirmed
  | CannotCancelCompleted
  | CannotDisputeClosed
  | TypeError

definition REQUIRED_DOCUMENTS :: "DocumentType list" where
  "REQUIRED_DOCUMENTS = [TITLE_DEED, IDENTITY_SELLER, IDENTITY_BUYER, PURCHASE_AGREEMENT]"

subsection \<open>Private helpers\<close>

definition addAuditEvent ::
  "'n Transaction \<Rightarrow> string \<Rightarrow> string \<Rightarrow> 'n Description \<Rightarrow> TransactionStatus option \<Rightarrow>
   TransactionStatus option \<Rightarrow> nat \<Rightarrow> 'n Transaction" where
  "addAuditEvent tx act actn descr prev new now =
     tx\<lparr>auditLog := auditLog tx @
       [\<lparr>timestamp = now, actor = act, action = actn, description = descr,
         previousStatus = prev, newStatus = new\<rparr>]\<rparr>"

definition transitionStatus ::
  "'n Transaction \<Rightarrow> TransactionStatus \<Rightarrow> string \<Rightarrow> nat \<Rightarrow> 'n Transaction" where
  "transitionStatus tx new act now =
     (let prev = status tx;
          tx1 = tx\<lparr>status := new\<rparr>;
          tx2 = tx1\<lparr>updatedAt := now\<rparr>
      in addAuditEvent tx2 act ''STATUS_CHANGED'' (StatusArrow prev new) (Some prev) (Some new) now)"

definition assertStatus ::
  "'n Transaction \<Rightarrow> TransactionStatus list \<Rightarrow> string \<Rightarrow> error option" where
  "assertStatus tx allowed operation =
     (if status tx \<notin> set allowed then Some (InvalidStatus operation (status tx) allowed)
      else None)"

definition areAllRequiredDocumentsVerified :: "'n Transaction \<Rightarrow> bool" where
  "areAllRequiredDocumentsVerified tx =
     (let uploadedAndVerified = set (map document_type (filter verified (documents tx)))
      in list_all (\<lambda>t. t \<in> uploadedAndVerified) REQUIRED_DOCUMENTS)"

text \<open>
  \<open>xs.find(p)\<close> is \<^const>\<open>find\<close>: the first element that satisfies \<open>p\<close>. The element is
  an object of the array, so a write to it is a write to the first such element of the list.
\<close>

fun update_first :: "('a \<Rightarrow> bool) \<Rightarrow> ('a \<Rightarrow> 'a) \<Rightarrow> 'a list \<Rightarrow> 'a list" where
  "update_first p f [] = []"
| "update_first p f (x # xs) = (if p x then f x # xs else x # update_first p f xs)"

text \<open>
  Arithmetic on a value that may be \<open>undefined\<close>. \<open>undefined\<close> converts to \<open>NaN\<close>,
  \<open>NaN + x\<close> is \<open>NaN\<close>, and every comparison with \<open>NaN\<close> is false; \<open>None\<close> stands
  for \<open>undefined\<close> and for the \<open>NaN\<close> it turns a sum into. \<open>x >= y\<close> is \<open>y \<le> x\<close>.
\<close>

fun js_plus :: "('n::plus) option \<Rightarrow> 'n option \<Rightarrow> 'n option" where
  "js_plus (Some a) (Some b) = Some (a + b)"
| "js_plus _ _ = None"

fun js_le :: "('n::ord) option \<Rightarrow> 'n \<Rightarrow> bool" where
  "js_le (Some a) b = (a \<le> b)"
| "js_le None b = False"

fun js_ge :: "('n::ord) option \<Rightarrow> 'n \<Rightarrow> bool" where
  "js_ge (Some a) b = (b \<le> a)"
| "js_ge None b = False"

definition totalConfirmed :: "('n::{plus,zero,ord}) Payment list \<Rightarrow> 'n option" where
  "totalConfirmed ps = foldl (\<lambda>sum p. js_plus sum (amount p)) (Some 0) (filter confirmed ps)"

subsection \<open>ContractService.generateContract\<close>

definition toUpperCase :: "string \<Rightarrow> string" where
  "toUpperCase cs =
     map (\<lambda>c. let n = (of_char c :: nat) in if 97 \<le> n \<and> n \<le> 122 then char_of (n - 32) else c) cs"

text \<open>
  The rendered text of the agreement (\<open>renderTemplate\<close>) is formatted for a locale and a
  date; it is the argument \<open>text\<close>.
\<close>

definition generateContract :: "'n Transaction \<Rightarrow> string \<Rightarrow> string \<Rightarrow> nat \<Rightarrow> 'n GeneratedContract" where
  "generateContract tx uuid text now =
     \<lparr>contract_id = ''CONTRACT-'' @ toUpperCase (take 8 uuid),
      templateVersion = ''v2.1-AI'',
      generatedAt = now,
      propertyAddress = address (property tx),
      sellerName = name (seller tx),
      buyerName = name (buyer tx),
      agreedPrice = price (property tx),
      content = text,
      signedAt = None,
      signedBy = None\<rparr>"

subsection \<open>Queries\<close>

definition getTransaction :: "string \<Rightarrow> 'n store \<Rightarrow> error + 'n Transaction" where
  "getTransaction transactionId s =
     (case s transactionId of
        None \<Rightarrow> Inl (TransactionNotFound transactionId)
      | Some tx \<Rightarrow> Inr tx)"

definition getAuditLog :: "string \<Rightarrow> 'n store \<Rightarrow> error + 'n AuditEvent list" where
  "getAuditLog transactionId s = map_sum (\<lambda>e. e) auditLog (getTransaction transactionId s)"

subsection \<open>1. Initiate\<close>

definition initiateTransaction ::
  "'n Property \<Rightarrow> Party \<Rightarrow> Party \<Rightarrow> string \<Rightarrow> string \<Rightarrow> string \<Rightarrow> nat \<Rightarrow> 'n store \<Rightarrow>
   'n Transaction \<times> 'n store" where
  "initiateTransaction prop sel buy uuid uuid2 text now s =
     (let tx0 = \<lparr>transaction_id = uuid, property = prop, seller = sel, buyer = buy,
                 status = INITIATED, documents = [], payments = [], escrow = None,
                 auditLog = [], contract = None, createdAt = now, updatedAt = now,
                 completedAt = None, cancelledAt = None, disputeReason = None\<rparr>;
          tx1 = addAuditEvent tx0 ''SYSTEM'' ''TRANSACTION_INITIATED''
                  (TransactionCreated (address prop)) None None now;
          c = generateContract tx1 uuid2 text now;
          tx2 = tx1\<lparr>contract := Some c\<rparr>;
          tx3 = transitionStatus tx2 CONTRACT_GENERATED ''SYSTEM'' now;
          tx4 = addAuditEvent tx3 ''SYSTEM'' ''CONTRACT_GENERATED''
                  (PurchaseAgreementGenerated (contract_id c) (templateVersion c)) None None now;
          tx5 = transitionStatus tx4 DOCUMENTS_PENDING ''SYSTEM'' now
      in (tx5, s(uuid \<mapsto> tx5)))"

subsection \<open>2. Escrow\<close>

definition openEscrow ::
  "string \<Rightarrow> string \<Rightarrow> string \<Rightarrow> nat \<Rightarrow> ('n::zero) store \<Rightarrow>
   (error + 'n EscrowAccount) \<times> 'n store" where
  "openEscrow transactionId act uuid now s =
     (case getTransaction transactionId s of
        Inl e \<Rightarrow> (Inl e, s)
      | Inr tx \<Rightarrow>
          if escrow tx \<noteq> None then (Inl EscrowAlreadyOpen, s)
          else
            let esc = \<lparr>escrow_id = uuid, balance = 0, heldSince = now, released = False\<rparr>;
                tx1 = tx\<lparr>escrow := Some esc\<rparr>;
                tx2 = tx1\<lparr>updatedAt := now\<rparr>;
                tx3 = addAuditEvent tx2 act ''ESCROW_OPENED'' (EscrowOpened uuid) None None now
            in (Inr esc, s(transactionId \<mapsto> tx3)))"

subsection \<open>3. Documents\<close>

definition uploadDocument ::
  "string \<Rightarrow> DocumentType \<Rightarrow> string \<Rightarrow> string option \<Rightarrow> string \<Rightarrow> nat \<Rightarrow> 'n store \<Rightarrow>
   (error + Document) \<times> 'n store" where
  "uploadDocument transactionId documentType by nts uuid now s =
     (case getTransaction transactionId s of
        Inl e \<Rightarrow> (Inl e, s)
      | Inr tx \<Rightarrow>
          (case assertStatus tx [DOCUMENTS_PENDING] ''upload documents'' of
             Some e \<Rightarrow> (Inl e, s)
           | None \<Rightarrow>
               let doc = \<lparr>document_id = uuid, document_type = documentType, uploadedBy = by,
                          uploadedAt = now, verified = False, verifiedBy = None,
                          verifiedAt = None, document_notes = nts\<rparr>;
                   tx1 = tx\<lparr>documents := documents tx @ [doc]\<rparr>;
                   tx2 = tx1\<lparr>updatedAt := now\<rparr>;
                   tx3 = addAuditEvent tx2 by ''DOCUMENT_UPLOADED''
                           (DocumentUploaded documentType uuid) None None now
               in (Inr doc, s(transactionId \<mapsto> tx3))))"

definition verifyDocument ::
  "string \<Rightarrow> string \<Rightarrow> string \<Rightarrow> nat \<Rightarrow> 'n store \<Rightarrow> (error + unit) \<times> 'n store" where
  "verifyDocument transactionId documentId by now s =
     (case getTransaction transactionId s of
        Inl e \<Rightarrow> (Inl e, s)
      | Inr tx \<Rightarrow>
          (case find (\<lambda>d. document_id d = documentId) (documents tx) of
             None \<Rightarrow> (Inl (DocumentNotFound documentId), s)
           | Some doc \<Rightarrow>
               if verified doc then (Inl (DocumentAlreadyVerified documentId), s)
               else
                 let tx1 = tx\<lparr>documents :=
                             update_first (\<lambda>d. document_id d = documentId)
                               (\<lambda>d. d\<lparr>verified := True, verifiedBy := Some by,
                                       verifiedAt := Some now\<rparr>)
                               (documents tx)\<rparr>;
                     tx2 = tx1\<lparr>updatedAt := now\<rparr>;
                     tx3 = addAuditEvent tx2 by ''DOCUMENT_VERIFIED''
                             (DocumentVerified (document_type doc) by) None None now;
                     tx4 = (if areAllRequiredDocumentsVerified tx3
                            then transitionStatus
                                   (transitionStatus tx3 DOCUMENTS_VERIFIED by now)
                                   PAYMENT_PENDING ''SYSTEM'' now
                            else tx3)
                 in (Inr (), s(transactionId \<mapsto> tx4))))"

subsection \<open>4. Payment\<close>

definition processPayment ::
  "string \<Rightarrow> ('n::{plus,zero,ord}) option \<Rightarrow> string \<Rightarrow> PaymentMethod \<Rightarrow> string \<Rightarrow> string \<Rightarrow>
   nat \<Rightarrow> 'n store \<Rightarrow> (error + 'n Payment) \<times> 'n store" where
  "processPayment transactionId amt by meth ref uuid now s =
     (case getTransaction transactionId s of
        Inl e \<Rightarrow> (Inl e, s)
      | Inr tx \<Rightarrow>
          (case assertStatus tx [PAYMENT_PENDING] ''process payment'' of
             Some e \<Rightarrow> (Inl e, s)
           | None \<Rightarrow>
               if js_le amt 0 then (Inl AmountNotPositive, s)
               else
                 let payment = \<lparr>payment_id = uuid, amount = amt, paidBy = by, paidAt = now,
                                payment_method = meth, reference = ref, confirmed = False\<rparr>;
                     tx1 = tx\<lparr>payments := payments tx @ [payment]\<rparr>;
                     tx2 = tx1\<lparr>updatedAt := now\<rparr>
                 in (case amt of
                       None \<Rightarrow> (Inl TypeError, s(transactionId \<mapsto> tx2))
                     | Some a \<Rightarrow>
                         let tx3 = addAuditEvent tx2 by ''PAYMENT_SUBMITTED''
                                     (PaymentSubmitted a meth ref) None None now;
                             tx4 = (case escrow tx3 of
                                      Some esc \<Rightarrow>
                                        if meth = ESCROW
                                        then addAuditEvent
                                               (tx3\<lparr>escrow :=
                                                      Some (esc\<lparr>balance := balance esc + a\<rparr>)\<rparr>)
                                               ''SYSTEM'' ''ESCROW_FUNDED'' (EscrowDeposited a)
                                               None None now
                                        else tx3
                                    | None \<Rightarrow> tx3)
                         in (Inr payment, s(transactionId \<mapsto> tx4)))))"

text \<open>
  In \<open>processPayment\<close> the description of the \<open>PAYMENT_SUBMITTED\<close> event calls
  \<open>amount.toLocaleString()\<close>, after the payment has been pushed and \<open>updatedAt\<close>
  written and before \<open>addAuditEvent\<close> is entered: with an \<open>undefined\<close> amount (which
  passes the guard, \<open>undefined <= 0\<close> being false) that call throws a \<open>TypeError\<close>.
\<close>

definition confirmPayment ::
  "string \<Rightarrow> string \<Rightarrow> string \<Rightarrow> nat \<Rightarrow> ('n::{plus,zero,ord}) store \<Rightarrow>
   (error + unit) \<times> 'n store" where
  "confirmPayment transactionId paymentId by now s =
     (case getTransaction transactionId s of
        Inl e \<Rightarrow> (Inl e, s)
      | Inr tx \<Rightarrow>
          (case find (\<lambda>p. payment_id p = paymentId) (payments tx) of
             None \<Rightarrow> (Inl (PaymentNotFound paymentId), s)
           | Some payment \<Rightarrow>
               if confirmed payment then (Inl PaymentAlreadyConfirmed, s)
               else
                 let tx1 = tx\<lparr>payments :=
                             update_first (\<lambda>p. payment_id p = paymentId)
                               (\<lambda>p. p\<lparr>confirmed := True\<rparr>) (payments tx)\<rparr>;
                     tx2 = tx1\<lparr>updatedAt := now\<rparr>;
                     tx3 = addAuditEvent tx2 by ''PAYMENT_CONFIRMED''
                             (PaymentConfirmed paymentId by) None None now;
                     tx4 = (if js_ge (totalConfirmed (payments tx3)) (price (property tx3))
                            then transitionStatus
                                   (transitionStatus tx3 PAYMENT_RECEIVED by now)
                                   OWNERSHIP_TRANSFER_PENDING ''SYSTEM'' now
                            else tx3)
                 in (Inr (), s(transactionId \<mapsto> tx4))))"

subsection \<open>5. Ownership transfer\<close>

definition completeOwnershipTransfer ::
  "string \<Rightarrow> string \<Rightarrow> nat \<Rightarrow> 'n store \<Rightarrow> (error + unit) \<times> 'n store" where
  "completeOwnershipTransfer transactionId notaryId now s =
     (case getTransaction transactionId s of
        Inl e \<Rightarrow> (Inl e, s)
      | Inr tx \<Rightarrow>
          (case assertStatus tx [OWNERSHIP_TRANSFER_PENDING] ''complete transfer'' of
             Some e \<Rightarrow> (Inl e, s)
           | None \<Rightarrow>
               let tx1 = (case escrow tx of
                            Some esc \<Rightarrow>
                              if \<not> released esc
                              then addAuditEvent (tx\<lparr>escrow := Some (esc\<lparr>released := True\<rparr>)\<rparr>)
                                     notaryId ''ESCROW_RELEASED''
                                     (EscrowFundsReleased (balance esc)) None None now
                              else tx
                          | None \<Rightarrow> tx);
                   tx2 = transitionStatus tx1 COMPLETED notaryId now;
                   tx3 = tx2\<lparr>completedAt := Some now\<rparr>;
                   tx4 = addAuditEvent tx3 notaryId ''OWNERSHIP_TRANSFERRED''
                           (PropertyTransferred (address (property tx3)) (name (seller tx3))
                              (name (buyer tx3))) None None now
               in (Inr (), s(transactionId \<mapsto> tx4))))"

subsection \<open>6. Cancel / dispute\<close>

definition cancelTransaction ::
  "string \<Rightarrow> string \<Rightarrow> string \<Rightarrow> nat \<Rightarrow> 'n store \<Rightarrow> (error + unit) \<times> 'n store" where
  "cancelTransaction transactionId act reason now s =
     (case getTransaction transactionId s of
        Inl e \<Rightarrow> (Inl e, s)
      | Inr tx \<Rightarrow>
          if status tx = COMPLETED then (Inl CannotCancelCompleted, s)
          else
            let tx1 = transitionStatus tx CANCELLED act now;
                tx2 = tx1\<lparr>cancelledAt := Some now\<rparr>;
                tx3 = addAuditEvent tx2 act ''TRANSACTION_CANCELLED''
                        (CancelledBecause reason) None None now
            in (Inr (), s(transactionId \<mapsto> tx3)))"

definition raiseDispute ::
  "string \<Rightarrow> string \<Rightarrow> string \<Rightarrow> nat \<Rightarrow> 'n store \<Rightarrow> (error + unit) \<times> 'n store" where
  "raiseDispute transactionId act reason now s =
     (case getTransaction transactionId s of
        Inl e \<Rightarrow> (Inl e, s)
      | Inr tx \<Rightarrow>
          if status tx \<in> set [COMPLETED, CANCELLED] then (Inl CannotDisputeClosed, s)
          else
            let tx1 = tx\<lparr>disputeReason := Some reason\<rparr>;
                tx2 = transitionStatus tx1 DISPUTED act now;
                tx3 = addAuditEvent tx2 act ''DISPUTE_RAISED'' (DisputeBecause reason) None None now
            in (Inr (), s(transactionId \<mapsto> tx3)))"

definition resolveDispute ::
  "string \<Rightarrow> string \<Rightarrow> string \<Rightarrow> nat \<Rightarrow> 'n store \<Rightarrow> (error + unit) \<times> 'n store" where
  "resolveDispute transactionId act resolution now s =
     (case getTransaction transactionId s of
        Inl e \<Rightarrow> (Inl e, s)
      | Inr tx \<Rightarrow>
          (case assertStatus tx [DISPUTED] ''resolve dispute'' of
             Some e \<Rightarrow> (Inl e, s)
           | None \<Rightarrow>
               let tx1 = tx\<lparr>disputeReason := None\<rparr>;
                   tx2 = transitionStatus tx1 OWNERSHIP_TRANSFER_PENDING act now;
                   tx3 = addAuditEvent tx2 act ''DISPUTE_RESOLVED''
                           (ResolutionText resolution) None None now
               in (Inr (), s(transactionId \<mapsto> tx3))))"

section \<open>Sequences of calls\<close>

text \<open>
  A caller issues the public operations one after another and keeps going after an
  error (the routes and the demo catch it). \<open>op\<close> is one call with its arguments,
  \<open>exec\<close> the store it leaves, \<open>failure\<close> the error it throws, if any.
\<close>

datatype 'n op =
    Initiate "'n Property" Party Party string string string nat
  | OpenEscrow string string string nat
  | UploadDocument string DocumentType string "string option" string nat
  | VerifyDocument string string string nat
  | ProcessPayment string "'n option" string PaymentMethod string string nat
  | ConfirmPayment string string string nat
  | CompleteOwnershipTransfer string string nat
  | CancelTransaction string string string nat
  | RaiseDispute string string string nat
  | ResolveDispute string string string nat

fun exec :: "('n::{plus,zero,ord}) op \<Rightarrow> 'n store \<Rightarrow> 'n store" where
  "exec (Initiate p sl b u u2 t n) s = snd (initiateTransaction p sl b u u2 t n s)"
| "exec (OpenEscrow i a u n) s = snd (openEscrow i a u n s)"
| "exec (UploadDocument i dt by nts u n) s = snd (uploadDocument i dt by nts u n s)"
| "exec (VerifyDocument i d by n) s = snd (verifyDocument i d by n s)"
| "exec (ProcessPayment i amt by m r u n) s = snd (processPayment i amt by m r u n s)"
| "exec (ConfirmPayment i p by n) s = snd (confirmPayment i p by n s)"
| "exec (CompleteOwnershipTransfer i nid n) s = snd (completeOwnershipTransfer i nid n s)"
| "exec (CancelTransaction i a r n) s = snd (cancelTransaction i a r n s)"
| "exec (RaiseDispute i a r n) s = snd (raiseDispute i a r n s)"
| "exec (ResolveDispute i a r n) s = snd (resolveDispute i a r n s)"

fun failure :: "('n::{plus,zero,ord}) op \<Rightarrow> 'n store \<Rightarrow> error option" where
  "failure (Initiate p sl b u u2 t n) s = None"
| "failure (OpenEscrow i a u n) s =
     (case fst (openEscrow i a u n s) of Inl e \<Rightarrow> Some e | Inr _ \<Rightarrow> None)"
| "failure (UploadDocument i dt by nts u n) s =
     (case fst (uploadDocument i dt by nts u n s) of Inl e \<Rightarrow> Some e | Inr _ \<Rightarrow> None)"
| "failure (VerifyDocument i d by n) s =
     (case fst (verifyDocument i d by n s) of Inl e \<Rightarrow> Some e | Inr _ \<Rightarrow> None)"
| "failure (ProcessPayment i amt by m r u n) s =
     (case fst (processPayment i amt by m r u n s) of Inl e \<Rightarrow> Some e | Inr _ \<Rightarrow> None)"
| "failure (ConfirmPayment i p by n) s =
     (case fst (confirmPayment i p by n s) of Inl e \<Rightarrow> Some e | Inr _ \<Rightarrow> None)"
| "failure (CompleteOwnershipTransfer i nid n) s =
     (case fst (completeOwnershipTransfer i nid n s) of Inl e \<Rightarrow> Some e | Inr _ \<Rightarrow> None)"
| "failure (CancelTransaction i a r n) s =
     (case fst (cancelTransaction i a r n s) of Inl e \<Rightarrow> Some e | Inr _ \<Rightarrow> None)"
| "failure (RaiseDispute i a r n) s =
     (case fst (raiseDispute i a r n s) of Inl e \<Rightarrow> Some e | Inr _ \<Rightarrow> None)"
| "failure (ResolveDispute i a r n) s =
     (case fst (resolveDispute i a r n s) of Inl e \<Rightarrow> Some e | Inr _ \<Rightarrow> None)"

fun execs :: "('n::{plus,zero,ord}) op list \<Rightarrow> 'n store \<Rightarrow> 'n store" where
  "execs [] s = s"
| "execs (c # cs) s = execs cs (exec c s)"

text \<open>
  \<open>uuidv4()\<close> draws an identifier that no transaction of the store has: a sequence of
  calls is \<open>fresh\<close> when each of its \<open>Initiate\<close> calls is given such an identifier.
\<close>

fun fresh_op :: "'n op \<Rightarrow> 'n store \<Rightarrow> bool" where
  "fresh_op (Initiate p sl b u u2 t n) s = (s u = None)"
| "fresh_op _ s = True"

fun fresh :: "('n::{plus,zero,ord}) op list \<Rightarrow> 'n store \<Rightarrow> bool" where
  "fresh [] s = True"
| "fresh (c # cs) s = (fresh_op c s \<and> fresh cs (exec c s))"

text \<open>
  A call is \<open>typed\<close> when its arguments have the types the operation declares: the
  amount of a \<open>processPayment\<close> is a number, not \<open>undefined\<close>.
\<close>

fun typed :: "'n op \<Rightarrow> bool" where
  "typed (ProcessPayment i amt pb m r u n) = (amt \<noteq> None)"
| "typed _ = True"

section \<open>Notions the properties are stated with\<close>

definition status_of :: "'n store \<Rightarrow> string \<Rightarrow> TransactionStatus option" where
  "status_of s tid = map_option status (s tid)"

definition log_of :: "'n store \<Rightarrow> string \<Rightarrow> 'n AuditEvent list" where
  "log_of s tid = (case s tid of None \<Rightarrow> [] | Some tx \<Rightarrow> auditLog tx)"

text \<open>
  The transitions a piece of the audit log records: the previous and new phase of each
  of its \<open>STATUS_CHANGED\<close> events, in order.
\<close>

definition changes ::
  "'n AuditEvent list \<Rightarrow> (TransactionStatus option \<times> TransactionStatus option) list" where
  "changes evs = map (\<lambda>ev. (previousStatus ev, newStatus ev))
                   (filter (\<lambda>ev. action ev = ''STATUS_CHANGED'') evs)"

text \<open>
  \<open>follows E a ts b\<close>: the recorded transitions \<open>ts\<close> lead from phase \<open>a\<close> to phase
  \<open>b\<close>, each one carrying both phases, starting where the one before ended, and being
  an edge of \<open>E\<close>.
\<close>

fun follows ::
  "(TransactionStatus \<Rightarrow> TransactionStatus \<Rightarrow> bool) \<Rightarrow> TransactionStatus \<Rightarrow>
   (TransactionStatus option \<times> TransactionStatus option) list \<Rightarrow> TransactionStatus \<Rightarrow> bool" where
  "follows E a [] b = (a = b)"
| "follows E a ((p, n) # ts) b =
     (case n of None \<Rightarrow> False | Some m \<Rightarrow> p = Some a \<and> E a m \<and> follows E m ts b)"

definition any_edge :: "TransactionStatus \<Rightarrow> TransactionStatus \<Rightarrow> bool" where
  "any_edge a b = True"

text \<open>The transition table of section 4.1 of the specification, row by row.\<close>

definition spec_edge :: "TransactionStatus \<Rightarrow> TransactionStatus \<Rightarrow> bool" where
  "spec_edge a b = ((a, b) \<in> set
     [(INITIATED, CONTRACT_GENERATED),
      (CONTRACT_GENERATED, DOCUMENTS_PENDING),
      (DOCUMENTS_PENDING, DOCUMENTS_VERIFIED),
      (DOCUMENTS_VERIFIED, PAYMENT_PENDING),
      (PAYMENT_PENDING, PAYMENT_RECEIVED),
      (PAYMENT_RECEIVED, OWNERSHIP_TRANSFER_PENDING),
      (OWNERSHIP_TRANSFER_PENDING, COMPLETED),
      (DOCUMENTS_PENDING, CANCELLED),
      (PAYMENT_PENDING, CANCELLED),
      (DOCUMENTS_PENDING, DISPUTED),
      (PAYMENT_PENDING, DISPUTED),
      (OWNERSHIP_TRANSFER_PENDING, DISPUTED),
      (DISPUTED, OWNERSHIP_TRANSFER_PENDING)])"

text \<open>
  The table widened by the two guards of the code: \<open>cancelTransaction\<close> refuses only
  \<open>COMPLETED\<close>, \<open>raiseDispute\<close> refuses only \<open>COMPLETED\<close> and \<open>CANCELLED\<close>.
\<close>

definition code_edge :: "TransactionStatus \<Rightarrow> TransactionStatus \<Rightarrow> bool" where
  "code_edge a b =
     (spec_edge a b \<or> (a \<noteq> COMPLETED \<and> b = CANCELLED)
      \<or> (a \<notin> set [COMPLETED, CANCELLED] \<and> b = DISPUTED))"

text \<open>
  A transition that changes the phase, or one of the two that the guards of
  \<open>cancelTransaction\<close> and \<open>raiseDispute\<close> let record the phase already held.
\<close>

definition change_or_known_loop :: "TransactionStatus \<Rightarrow> TransactionStatus \<Rightarrow> bool" where
  "change_or_known_loop a b = (a \<noteq> b \<or> a = CANCELLED \<or> a = DISPUTED)"

text \<open>
  The phases a transaction is in between two calls: \<open>INITIATED\<close>,
  \<open>CONTRACT_GENERATED\<close>, \<open>DOCUMENTS_VERIFIED\<close> and \<open>PAYMENT_RECEIVED\<close> are passed
  through within one call.
\<close>

definition resting :: "TransactionStatus \<Rightarrow> bool" where
  "resting a = (a \<notin> set [INITIATED, CONTRACT_GENERATED, DOCUMENTS_VERIFIED, PAYMENT_RECEIVED])"

text \<open>
  A call is \<open>in_phase\<close> when it is not a \<open>verifyDocument\<close> on a transaction outside
  \<open>DOCUMENTS_PENDING\<close> nor a \<open>confirmPayment\<close> on one outside \<open>PAYMENT_PENDING\<close>;
  a sequence of calls is \<open>disciplined\<close> when each call is fresh and in phase.
\<close>

fun in_phase :: "'n op \<Rightarrow> 'n store \<Rightarrow> bool" where
  "in_phase (VerifyDocument i d vb n) s =
     (case s i of None \<Rightarrow> True | Some tx \<Rightarrow> status tx = DOCUMENTS_PENDING)"
| "in_phase (ConfirmPayment i p cb n) s =
     (case s i of None \<Rightarrow> True | Some tx \<Rightarrow> status tx = PAYMENT_PENDING)"
| "in_phase _ s = True"

fun disciplined :: "('n::{plus,zero,ord}) op list \<Rightarrow> 'n store \<Rightarrow> bool" where
  "disciplined [] s = True"
| "disciplined (c # cs) s = (fresh_op c s \<and> in_phase c s \<and> disciplined cs (exec c s))"

text \<open>
  The sum of a list of amounts the way the code forms it: starting from \<open>0\<close>, each
  amount added in turn to what has been added so far. An \<open>undefined\<close> amount in the
  list leaves no sum (\<open>None\<close>).
\<close>

fun running_sum :: "('n::plus) \<Rightarrow> 'n option list \<Rightarrow> 'n option" where
  "running_sum acc [] = Some acc"
| "running_sum acc (None # xs) = None"
| "running_sum acc (Some a # xs) = running_sum (acc + a) xs"

text \<open>The sum of the amounts of the payments made by the escrow method.\<close>

definition escrowSum :: "('n::{plus,zero}) Payment list \<Rightarrow> 'n option" where
  "escrowSum ps = running_sum 0 (map amount (filter (\<lambda>p. payment_method p = ESCROW) ps))"

text \<open>The sum of the amounts of the confirmed payments.\<close>

definition confirmedSum :: "('n::{plus,zero}) Payment list \<Rightarrow> 'n option" where
  "confirmedSum ps = running_sum 0 (map amount (filter confirmed ps))"

definition balance_of :: "'n store \<Rightarrow> string \<Rightarrow> 'n option" where
  "balance_of s tid = (case s tid of None \<Rightarrow> None | Some tx \<Rightarrow> map_option balance (escrow tx))"

definition payments_of :: "'n store \<Rightarrow> string \<Rightarrow> 'n Payment list" where
  "payments_of s tid = (case s tid of None \<Rightarrow> [] | Some tx \<Rightarrow> payments tx)"

text \<open>The document, or payment, that \<open>find\<close> returns for an identifier.\<close>

definition found_document :: "'n store \<Rightarrow> string \<Rightarrow> string \<Rightarrow> Document option" where
  "found_document s tid d =
     (case s tid of None \<Rightarrow> None | Some tx \<Rightarrow> find (\<lambda>x. document_id x = d) (documents tx))"

definition found_payment :: "'n store \<Rightarrow> string \<Rightarrow> string \<Rightarrow> 'n Payment option" where
  "found_payment s tid p =
     (case s tid of None \<Rightarrow> None | Some tx \<Rightarrow> find (\<lambda>x. payment_id x = p) (payments tx))"

text \<open>
  The specification's condition for the automatic advance out of \<open>DOCUMENTS_PENDING\<close>:
  each of the four required kinds has at least one verified document.
\<close>

definition required_kinds_verified :: "Document list \<Rightarrow> bool" where
  "required_kinds_verified ds =
     (\<forall>t \<in> {TITLE_DEED, IDENTITY_SELLER, IDENTITY_BUYER, PURCHASE_AGREEMENT}.
        \<exists>d \<in> set ds. verified d \<and> document_type d = t)"

definition optional_kind :: "DocumentType \<Rightarrow> bool" where
  "optional_kind t = (t = MORTGAGE_APPROVAL \<or> t = INSPECTION_REPORT)"

section \<open>IEEE doubles\<close>

text \<open>
  The numbers of the concrete runs: JavaScript's \<open>number\<close>, an IEEE 754 binary64
  value. A finite double is the rational it denotes; \<open>double_of\<close> rounds a rational to
  the nearest double, ties to the even significand (53 bits, exponents from \<open>-1022\<close>
  with gradual underflow, overflow to infinity), which is what reading a decimal literal
  and what \<open>+\<close> do. The sign of zero is not kept: it shows in no comparison or sum.
\<close>

datatype double = Finite rat | PosInfinity | NegInfinity | NaN

text \<open>
  Powers of two and the number of binary digits, by recursion on integers (binary
  numerals all the way: nothing is counted in unary).
\<close>

function power_of_two :: "int \<Rightarrow> int" where
  "power_of_two e = (if e \<le> 0 then 1 else 2 * power_of_two (e - 1))"
  by pat_completeness auto
termination
  by (relation "measure nat") auto

definition pow2 :: "int \<Rightarrow> rat" where
  "pow2 e = (if 0 \<le> e then of_int (power_of_two e) else 1 / of_int (power_of_two (- e)))"

function bit_length :: "int \<Rightarrow> int" where
  "bit_length n = (if n \<le> 0 then 0 else 1 + bit_length (n div 2))"
  by pat_completeness auto
termination
  by (relation "measure nat") auto

text \<open>The exponent \<open>e\<close> with \<open>2 ^ e \<le> x < 2 ^ (e + 1)\<close>, for \<open>x > 0\<close>.\<close>

definition bit_difference :: "int \<Rightarrow> int \<Rightarrow> int" where
  "bit_difference n d = bit_length n - bit_length d"

definition binary_exponent :: "rat \<Rightarrow> int" where
  "binary_exponent x =
     (if pow2 (bit_difference (fst (quotient_of x)) (snd (quotient_of x))) \<le> x
      then bit_difference (fst (quotient_of x)) (snd (quotient_of x))
      else bit_difference (fst (quotient_of x)) (snd (quotient_of x)) - 1)"

definition round_half_even :: "rat \<Rightarrow> int" where
  "round_half_even m =
     (let f = \<lfloor>m\<rfloor>; r = m - of_int f
      in if r < 1 / 2 then f else if 1 / 2 < r then f + 1 else if even f then f else f + 1)"

definition round_positive :: "rat \<Rightarrow> double" where
  "round_positive x =
     (let q = max (binary_exponent x) (- 1022) - 52;
          y = of_int (round_half_even (x / pow2 q)) * pow2 q
      in if 1024 \<le> binary_exponent y then PosInfinity else Finite y)"

definition negate :: "double \<Rightarrow> double" where
  "negate x = (case x of Finite r \<Rightarrow> Finite (- r) | PosInfinity \<Rightarrow> NegInfinity
                | NegInfinity \<Rightarrow> PosInfinity | NaN \<Rightarrow> NaN)"

definition double_of :: "rat \<Rightarrow> double" where
  "double_of x = (if x = 0 then Finite 0 else if 0 < x then round_positive x
                  else negate (round_positive (- x)))"

instantiation double :: "{plus, zero, ord}"
begin

definition zero_double :: double where
  "zero_double = Finite 0"

fun plus_double :: "double \<Rightarrow> double \<Rightarrow> double" where
  "plus_double (Finite a) (Finite b) = double_of (a + b)"
| "plus_double NaN y = NaN"
| "plus_double x NaN = NaN"
| "plus_double PosInfinity NegInfinity = NaN"
| "plus_double NegInfinity PosInfinity = NaN"
| "plus_double PosInfinity y = PosInfinity"
| "plus_double x PosInfinity = PosInfinity"
| "plus_double NegInfinity y = NegInfinity"
| "plus_double x NegInfinity = NegInfinity"

fun less_eq_double :: "double \<Rightarrow> double \<Rightarrow> bool" where
  "less_eq_double (Finite a) (Finite b) = (a \<le> b)"
| "less_eq_double NaN y = False"
| "less_eq_double x NaN = False"
| "less_eq_double NegInfinity y = True"
| "less_eq_double x PosInfinity = True"
| "less_eq_double x y = False"

fun less_double :: "double \<Rightarrow> double \<Rightarrow> bool" where
  "less_double (Finite a) (Finite b) = (a < b)"
| "less_double NaN y = False"
| "less_double x NaN = False"
| "less_double PosInfinity y = False"
| "less_double x NegInfinity = False"
| "less_double x y = True"

instance ..

end

text \<open>The sum of a list of amounts as rationals, with no rounding.\<close>

fun exact_sum :: "double option list \<Rightarrow> rat option" where
  "exact_sum [] = Some 0"
| "exact_sum (Some (Finite r) # xs) = map_option (\<lambda>t. r + t) (exact_sum xs)"
| "exact_sum (_ # xs) = None"

definition exact_escrow_sum_of :: "double store \<Rightarrow> string \<Rightarrow> rat option" where
  "exact_escrow_sum_of s tid =
     exact_sum (map amount (filter (\<lambda>p. payment_method p = ESCROW) (payments_of s tid)))"

definition exact_confirmed_sum_of :: "double store \<Rightarrow> string \<Rightarrow> rat option" where
  "exact_confirmed_sum_of s tid = exact_sum (map amount (filter confirmed (payments_of s tid)))"

definition price_of :: "'n store \<Rightarrow> string \<Rightarrow> 'n option" where
  "price_of s tid = map_option (\<lambda>tx. price (property tx)) (s tid)"

section \<open>Concrete runs (after demo.ts)\<close>

text \<open>
  The amounts of the runs are whole numbers below \<open>2 ^ 53 + 3\<close> that a double holds
  exactly, written \<open>Finite n\<close>.
\<close>

definition property1 :: "double Property" where
  "property1 = \<lparr>property_id = ''prop-1'', address = ''Mannerheimintie 1'', price = Finite 350000,
                 squareMeters = Finite 85, property_description = None\<rparr>"

definition seller1 :: Party where
  "seller1 = \<lparr>party_id = ''seller-1'', name = ''Anna'', email = ''anna@example.com'',
               phoneNumber = ''+358 1'', role = SELLER\<rparr>"

definition buyer1 :: Party where
  "buyer1 = \<lparr>party_id = ''buyer-1'', name = ''Ben'', email = ''ben@example.com'',
              phoneNumber = ''+358 2'', role = BUYER\<rparr>"

definition initiate1 :: "double op" where
  "initiate1 = Initiate property1 seller1 buyer1 ''tx-1'' ''1b9d6bcd-bbfd'' ''agreement'' 1"

definition upload_required :: "double op list" where
  "upload_required =
     [UploadDocument ''tx-1'' TITLE_DEED ''seller-1'' None ''doc-a'' 3,
      UploadDocument ''tx-1'' IDENTITY_SELLER ''seller-1'' None ''doc-b'' 4,
      UploadDocument ''tx-1'' IDENTITY_BUYER ''buyer-1'' None ''doc-c'' 5,
      UploadDocument ''tx-1'' PURCHASE_AGREEMENT ''seller-1'' None ''doc-d'' 6]"

definition verify_required :: "double op list" where
  "verify_required =
     [VerifyDocument ''tx-1'' ''doc-a'' ''ai-notary-agent-v1'' 7,
      VerifyDocument ''tx-1'' ''doc-b'' ''ai-notary-agent-v1'' 8,
      VerifyDocument ''tx-1'' ''doc-c'' ''ai-notary-agent-v1'' 9,
      VerifyDocument ''tx-1'' ''doc-d'' ''ai-notary-agent-v1'' 10]"

text \<open>Scenario 2 of the demo: two of the four documents uploaded, then cancelled.\<close>

definition cancellation_scenario :: "double op list" where
  "cancellation_scenario =
     [initiate1,
      OpenEscrow ''tx-1'' ''SYSTEM'' ''esc-1'' 2,
      UploadDocument ''tx-1'' TITLE_DEED ''seller-1'' None ''doc-a'' 3,
      UploadDocument ''tx-1'' IDENTITY_BUYER ''buyer-1'' None ''doc-c'' 4,
      CancelTransaction ''tx-1'' ''buyer-1'' ''Buyer changed mind'' 5]"

text \<open>All four required documents uploaded, then cancelled.\<close>

definition cancelled_with_documents :: "double op list" where
  "cancelled_with_documents =
     initiate1 # upload_required @ [CancelTransaction ''tx-1'' ''buyer-1'' ''Buyer changed mind'' 7]"

text \<open>The transaction taken to \<open>PAYMENT_PENDING\<close>, with no escrow account opened.\<close>

definition to_payment_pending :: "double op list" where
  "to_payment_pending = initiate1 # upload_required @ verify_required"

text \<open>An escrow payment submitted before the escrow account is opened.\<close>

definition late_escrow_scenario :: "double op list" where
  "late_escrow_scenario =
     to_payment_pending @
     [ProcessPayment ''tx-1'' (Some (Finite 350000)) ''buyer-1'' ESCROW ''FI-BANK-1'' ''pay-1'' 11,
      OpenEscrow ''tx-1'' ''SYSTEM'' ''esc-1'' 12]"

text \<open>The happy path of the demo up to the submitted escrow payment.\<close>

definition escrow_payment_scenario :: "double op list" where
  "escrow_payment_scenario =
     initiate1 # OpenEscrow ''tx-1'' ''SYSTEM'' ''esc-1'' 2 # upload_required @ verify_required @
     [ProcessPayment ''tx-1'' (Some (Finite 350000)) ''buyer-1'' ESCROW ''FI-BANK-1'' ''pay-1'' 11]"

text \<open>The happy path of the demo, to \<open>COMPLETED\<close>.\<close>

definition finish_happy_path :: "double op list" where
  "finish_happy_path =
     [ConfirmPayment ''tx-1'' ''pay-1'' ''bank-1'' 12,
      CompleteOwnershipTransfer ''tx-1'' ''notary-1'' 13]"

definition happy_path :: "double op list" where
  "happy_path = escrow_payment_scenario @ finish_happy_path"

text \<open>A payment below the price, by bank transfer.\<close>

definition partial_payment_scenario :: "double op list" where
  "partial_payment_scenario =
     to_payment_pending @
     [ProcessPayment ''tx-1'' (Some (Finite 100000)) ''buyer-1'' BANK_TRANSFER ''FI-BANK-2'' ''pay-1'' 11]"

text \<open>
  A property priced at \<open>2 ^ 53 + 2\<close> and three escrow payments of \<open>2 ^ 53\<close>, 1 and
  1, all confirmed: each 1 is lost to rounding when it is added.
\<close>

definition property2 :: "double Property" where
  "property2 = \<lparr>property_id = ''prop-2'', address = ''Mannerheimintie 2'',
                 price = Finite 9007199254740994, squareMeters = Finite 85,
                 property_description = None\<rparr>"

definition rounding_setup :: "double op list" where
  "rounding_setup =
     Initiate property2 seller1 buyer1 ''tx-1'' ''1b9d6bcd-bbfd'' ''agreement'' 1 #
     OpenEscrow ''tx-1'' ''SYSTEM'' ''esc-1'' 2 # upload_required @ verify_required @
     [ProcessPayment ''tx-1'' (Some (Finite 9007199254740992)) ''buyer-1'' ESCROW
        ''FI-BANK-1'' ''pay-1'' 11,
      ProcessPayment ''tx-1'' (Some (Finite 1)) ''buyer-1'' ESCROW ''FI-BANK-2'' ''pay-2'' 12,
      ProcessPayment ''tx-1'' (Some (Finite 1)) ''buyer-1'' ESCROW ''FI-BANK-3'' ''pay-3'' 13,
      ConfirmPayment ''tx-1'' ''pay-1'' ''bank-1'' 14,
      ConfirmPayment ''tx-1'' ''pay-2'' ''bank-1'' 15]"

definition last_confirmation :: "double op" where
  "last_confirmation = ConfirmPayment ''tx-1'' ''pay-3'' ''bank-1'' 16"

definition rounding_scenario :: "double op list" where
  "rounding_scenario = rounding_setup @ [last_confirmation]"

text \<open>
  The call the route \<open>POST /:id/payments\<close> makes for a request body without
  \<open>amount\<close>.
\<close>

definition payment_without_amount :: "double op" where
  "payment_without_amount =
     ProcessPayment ''tx-1'' None ''buyer-1'' BANK_TRANSFER ''REF-1'' ''pay-9'' 11"

text \<open>Two disputes in a row, then a cancellation.\<close>

definition dispute_then_cancel :: "double op list" where
  "dispute_then_cancel =
     [RaiseDispute ''tx-1'' ''seller-1'' ''Payment amount seems incorrect.'' 2,
      RaiseDispute ''tx-1'' ''seller-1'' ''Still incorrect.'' 3,
      CancelTransaction ''tx-1'' ''buyer-1'' ''Buyer changed mind'' 4]"

text \<open>The stores these runs leave, and the transaction \<open>tx-1\<close> in each.\<close>

definition started :: "double store" where
  "started = exec initiate1 Map.empty"

definition started_tx :: "double Transaction" where
  "started_tx = the (started ''tx-1'')"

definition uploaded :: "double store" where
  "uploaded = execs (initiate1 # upload_required) Map.empty"

definition uploaded_tx :: "double Transaction" where
  "uploaded_tx = the (uploaded ''tx-1'')"

definition three_verified :: "double store" where
  "three_verified = execs (take 3 verify_required) uploaded"

definition three_verified_tx :: "double Transaction" where
  "three_verified_tx = the (three_verified ''tx-1'')"

definition cancelled :: "double store" where
  "cancelled = execs cancellation_scenario Map.empty"

definition cancelled_tx :: "double Transaction" where
  "cancelled_tx = the (cancelled ''tx-1'')"

definition cancelled_unfunded :: "double store" where
  "cancelled_unfunded = execs cancelled_with_documents Map.empty"

definition cancelled_unfunded_tx :: "double Transaction" where
  "cancelled_unfunded_tx = the (cancelled_unfunded ''tx-1'')"

definition awaiting_confirmation :: "double store" where
  "awaiting_confirmation = execs escrow_payment_scenario Map.empty"

definition awaiting_confirmation_tx :: "double Transaction" where
  "awaiting_confirmation_tx = the (awaiting_confirmation ''tx-1'')"

definition partly_paid :: "double store" where
  "partly_paid = execs partial_payment_scenario Map.empty"

definition partly_paid_tx :: "double Transaction" where
  "partly_paid_tx = the (partly_paid ''tx-1'')"

definition completed :: "double store" where
  "completed = execs happy_path Map.empty"

definition completed_tx :: "double Transaction" where
  "completed_tx = the (completed ''tx-1'')"

definition payment_pending :: "double store" where
  "payment_pending = execs to_payment_pending Map.empty"

definition two_confirmed :: "double store" where
  "two_confirmed = execs rounding_setup Map.empty"

definition rounded :: "double store" where
  "rounded = execs rounding_scenario Map.empty"

section \<open>Auxiliary facts\<close>

lemmas op_defs = openEscrow_def uploadDocument_def verifyDocument_def processPayment_def
  confirmPayment_def completeOwnershipTransfer_def cancelTransaction_def raiseDispute_def
  resolveDispute_def

lemmas helper_defs = getTransaction_def assertStatus_def addAuditEvent_def transitionStatus_def

subsection \<open>Lists\<close>

lemma find_append_Some: "find p xs = Some y \<Longrightarrow> find p (xs @ ys) = Some y"
  by (induction xs) (auto split: if_splits)

lemma find_update_first_other:
  "(\<And>x. q (f x) = q x) \<Longrightarrow> (\<And>x. p x \<Longrightarrow> \<not> q x) \<Longrightarrow>
   find q (update_first p f xs) = find q xs"
  by (induction xs) auto

lemma find_update_first_same:
  "(\<And>x. p (f x) = p x) \<Longrightarrow> find p (update_first p f xs) = map_option f (find p xs)"
  by (induction xs) auto

lemma length_update_first [simp]: "length (update_first p f xs) = length xs"
  by (induction xs) auto

lemma find_document_update_other:
  "d' \<noteq> d \<Longrightarrow>
   find (\<lambda>x. document_id x = d)
     (update_first (\<lambda>x. document_id x = d')
        (\<lambda>x. x\<lparr>verified := True, verifiedBy := a, verifiedAt := b\<rparr>) xs) =
   find (\<lambda>x. document_id x = d) xs"
  by (rule find_update_first_other) auto

lemma find_payment_update_other:
  "p' \<noteq> p \<Longrightarrow>
   find (\<lambda>x. payment_id x = p)
     (update_first (\<lambda>x. payment_id x = p') (\<lambda>x. x\<lparr>confirmed := True\<rparr>) xs) =
   find (\<lambda>x. payment_id x = p) xs"
  by (rule find_update_first_other) auto

subsection \<open>Recorded transitions\<close>

lemma changes_append: "changes (xs @ ys) = changes xs @ changes ys"
  by (simp add: changes_def)

lemma follows_append:
  "follows E a xs b \<Longrightarrow> follows E b ys c \<Longrightarrow> follows E a (xs @ ys) c"
  by (induction xs arbitrary: a) (auto split: option.splits)

lemma follows_completed: "follows code_edge COMPLETED xs b \<Longrightarrow> xs = [] \<and> b = COMPLETED"
  by (cases xs) (auto simp: code_edge_def spec_edge_def split: option.splits)

lemma follows_cancelled: "follows code_edge CANCELLED xs b \<Longrightarrow> b = CANCELLED"
  by (induction xs) (auto simp: code_edge_def spec_edge_def split: option.splits)

subsection \<open>A failed call\<close>

lemma failed_call_unchanged: "typed c \<Longrightarrow> failure c s = Some e \<Longrightarrow> exec c s = s"
  by (cases c) (auto simp: op_defs Let_def split: sum.splits option.splits if_splits)

subsection \<open>One call, seen from one transaction\<close>

lemma step_log:
  assumes "s tid = Some tx" and "fresh_op c s"
  shows "\<exists>tx' evs. exec c s tid = Some tx' \<and> auditLog tx' = auditLog tx @ evs
           \<and> follows any_edge (status tx) (changes evs) (status tx')"
  using assms
  by (cases c)
     (auto simp: op_defs helper_defs initiateTransaction_def Let_def changes_def any_edge_def
           split: option.splits)

lemma step_edges:
  assumes "s tid = Some tx" and "fresh_op c s" and "in_phase c s"
  shows "\<exists>tx' evs. exec c s tid = Some tx' \<and> auditLog tx' = auditLog tx @ evs
           \<and> follows code_edge (status tx) (changes evs) (status tx')"
  using assms
  by (cases c)
     (auto simp: op_defs helper_defs initiateTransaction_def Let_def changes_def
                 code_edge_def spec_edge_def
           split: option.splits)

lemma step_loops:
  assumes "s tid = Some tx" and "fresh_op c s" and "resting (status tx)"
  shows "\<exists>tx' evs. exec c s tid = Some tx' \<and> auditLog tx' = auditLog tx @ evs
           \<and> follows change_or_known_loop (status tx) (changes evs) (status tx')
           \<and> resting (status tx')"
  using assms
  by (cases c)
     (auto simp: op_defs helper_defs initiateTransaction_def Let_def changes_def
                 change_or_known_loop_def resting_def
           split: option.splits)

lemma run_log:
  "s tid = Some tx \<Longrightarrow> fresh cs s \<Longrightarrow>
   \<exists>tx' evs. execs cs s tid = Some tx' \<and> auditLog tx' = auditLog tx @ evs
      \<and> follows any_edge (status tx) (changes evs) (status tx')"
proof (induction cs arbitrary: s tx)
  case Nil
  then show ?case by (simp add: changes_def)
next
  case (Cons c cs)
  from Cons.prems have f: "fresh_op c s" and r: "fresh cs (exec c s)" by simp_all
  from step_log [OF Cons.prems(1) f] obtain tx1 evs1 where
    1: "exec c s tid = Some tx1" "auditLog tx1 = auditLog tx @ evs1"
       "follows any_edge (status tx) (changes evs1) (status tx1)" by blast
  from Cons.IH [OF 1(1) r] obtain tx2 evs2 where
    2: "execs cs (exec c s) tid = Some tx2" "auditLog tx2 = auditLog tx1 @ evs2"
       "follows any_edge (status tx1) (changes evs2) (status tx2)" by blast
  have "follows any_edge (status tx) (changes (evs1 @ evs2)) (status tx2)"
    using follows_append [OF 1(3) 2(3)] by (simp add: changes_append)
  with 1 2 show ?case by auto
qed

lemma run_edges:
  "s tid = Some tx \<Longrightarrow> disciplined cs s \<Longrightarrow>
   \<exists>tx' evs. execs cs s tid = Some tx' \<and> auditLog tx' = auditLog tx @ evs
      \<and> follows code_edge (status tx) (changes evs) (status tx')"
proof (induction cs arbitrary: s tx)
  case Nil
  then show ?case by (simp add: changes_def)
next
  case (Cons c cs)
  from Cons.prems have f: "fresh_op c s" and p: "in_phase c s"
    and r: "disciplined cs (exec c s)" by simp_all
  from step_edges [OF Cons.prems(1) f p] obtain tx1 evs1 where
    1: "exec c s tid = Some tx1" "auditLog tx1 = auditLog tx @ evs1"
       "follows code_edge (status tx) (changes evs1) (status tx1)" by blast
  from Cons.IH [OF 1(1) r] obtain tx2 evs2 where
    2: "execs cs (exec c s) tid = Some tx2" "auditLog tx2 = auditLog tx1 @ evs2"
       "follows code_edge (status tx1) (changes evs2) (status tx2)" by blast
  have "follows code_edge (status tx) (changes (evs1 @ evs2)) (status tx2)"
    using follows_append [OF 1(3) 2(3)] by (simp add: changes_append)
  with 1 2 show ?case by auto
qed

subsection \<open>The history of a transaction since its creation\<close>

lemma created_by_initiate:
  "s tid = None \<Longrightarrow> exec c s tid = Some tx' \<Longrightarrow>
   \<exists>p sl b u2 t n. c = Initiate p sl b tid u2 t n"
  by (cases c)
     (auto simp: op_defs helper_defs initiateTransaction_def Let_def
           split: option.splits if_splits)

lemma initiate_history:
  "\<exists>tx'. exec (Initiate p sl b u u2 t n) s u = Some tx'
     \<and> follows change_or_known_loop INITIATED (changes (auditLog tx')) (status tx')
     \<and> resting (status tx')"
  by (simp add: initiateTransaction_def helper_defs Let_def changes_def
                change_or_known_loop_def resting_def)

lemma step_history:
  assumes inv: "\<forall>tid tx. s tid = Some tx \<longrightarrow>
            resting (status tx)
            \<and> follows change_or_known_loop INITIATED (changes (auditLog tx)) (status tx)"
    and f: "fresh_op c s" and e: "exec c s tid = Some tx'"
  shows "resting (status tx')
         \<and> follows change_or_known_loop INITIATED (changes (auditLog tx')) (status tx')"
proof (cases "s tid")
  case None
  from created_by_initiate [OF None e] obtain p sl b u2 t n where
    c: "c = Initiate p sl b tid u2 t n" by blast
  with initiate_history [of p sl b tid u2 t n s] e show ?thesis by auto
next
  case (Some tx)
  from inv Some have r: "resting (status tx)"
    and h: "follows change_or_known_loop INITIATED (changes (auditLog tx)) (status tx)"
    by blast+
  from step_loops [OF Some f r] e obtain evs where
    1: "auditLog tx' = auditLog tx @ evs"
       "follows change_or_known_loop (status tx) (changes evs) (status tx')"
       "resting (status tx')" by auto
  have "follows change_or_known_loop INITIATED (changes (auditLog tx @ evs)) (status tx')"
    using follows_append [OF h 1(2)] by (simp add: changes_append)
  with 1 show ?thesis by simp
qed

lemma run_history:
  "\<forall>tid tx. s tid = Some tx \<longrightarrow>
      resting (status tx)
      \<and> follows change_or_known_loop INITIATED (changes (auditLog tx)) (status tx) \<Longrightarrow>
   fresh cs s \<Longrightarrow> execs cs s tid = Some tx' \<Longrightarrow>
   resting (status tx')
   \<and> follows change_or_known_loop INITIATED (changes (auditLog tx')) (status tx')"
proof (induction cs arbitrary: s)
  case Nil
  then show ?case by simp
next
  case (Cons c cs)
  from Cons.prems(2) have f: "fresh_op c s" and r: "fresh cs (exec c s)" by simp_all
  have inv': "\<forall>i x. exec c s i = Some x \<longrightarrow>
      resting (status x)
      \<and> follows change_or_known_loop INITIATED (changes (auditLog x)) (status x)"
    using step_history [OF Cons.prems(1) f] by blast
  from Cons.IH [OF inv' r] Cons.prems(3) show ?case by simp
qed

section \<open>Failure leaves the store as it was\<close>

text \<open>
  Claim C5, as amended. Every operation called with arguments of the types it declares is
  atomic on failure: whichever operation is called (\<open>openEscrow\<close>, \<open>uploadDocument\<close>,
  \<open>verifyDocument\<close>, \<open>processPayment\<close>, \<open>confirmPayment\<close>,
  \<open>completeOwnershipTransfer\<close>, \<open>cancelTransaction\<close>, \<open>raiseDispute\<close>,
  \<open>resolveDispute\<close>) and whatever the store, if the call throws then the store it
  leaves is the store it was given, so every transaction's phase, documents, payments,
  escrow, audit log, timestamps and dispute reason are unchanged.
\<close>

theorem typed_failure_leaves_store:
  "typed c \<Longrightarrow> failure c s = Some e \<Longrightarrow> exec c s = s"
  by (cases c) (auto simp: op_defs Let_def split: sum.splits option.splits if_splits)

text \<open>
  Witness for C5: uploading a document to the cancelled transaction of the demo's
  second scenario throws the invalid-status error and leaves the store untouched.
\<close>

theorem typed_failure_leaves_store_witness:
  "typed (UploadDocument ''tx-1'' IDENTITY_SELLER ''seller-1'' None ''doc-b'' 6 :: double op)
   \<and> failure (UploadDocument ''tx-1'' IDENTITY_SELLER ''seller-1'' None ''doc-b'' 6) cancelled =
       Some (InvalidStatus ''upload documents'' CANCELLED [DOCUMENTS_PENDING])
   \<and> exec (UploadDocument ''tx-1'' IDENTITY_SELLER ''seller-1'' None ''doc-b'' 6) cancelled =
       cancelled"
proof -
  have t: "typed (UploadDocument ''tx-1'' IDENTITY_SELLER ''seller-1'' None ''doc-b'' 6
                    :: double op)"
    by simp
  have h: "failure (UploadDocument ''tx-1'' IDENTITY_SELLER ''seller-1'' None ''doc-b'' 6)
             cancelled =
           Some (InvalidStatus ''upload documents'' CANCELLED [DOCUMENTS_PENDING])"
    by code_simp
  from t h typed_failure_leaves_store [OF t h] show ?thesis by blast
qed

text \<open>
  Counterexample to C5 as stated: \<open>processPayment\<close> called with an \<open>undefined\<close>
  amount, as the route \<open>POST /:id/payments\<close> does for a body without \<open>amount\<close>, on
  a transaction in \<open>PAYMENT_PENDING\<close> that has no payment yet. The call throws a
  \<open>TypeError\<close> and leaves the payment it had already appended in the store.
\<close>

theorem payment_without_amount_is_kept:
  "status_of payment_pending ''tx-1'' = Some PAYMENT_PENDING
   \<and> map payment_id (payments_of payment_pending ''tx-1'') = []
   \<and> failure payment_without_amount payment_pending = Some TypeError
   \<and> map payment_id (payments_of (exec payment_without_amount payment_pending) ''tx-1'') =
       [''pay-9'']
   \<and> exec payment_without_amount payment_pending \<noteq> payment_pending"
proof -
  have e: "status_of payment_pending ''tx-1'' = Some PAYMENT_PENDING
   \<and> map payment_id (payments_of payment_pending ''tx-1'') = []
   \<and> failure payment_without_amount payment_pending = Some TypeError
   \<and> map payment_id (payments_of (exec payment_without_amount payment_pending) ''tx-1'') =
       [''pay-9'']"
    by code_simp
  then have "exec payment_without_amount payment_pending \<noteq> payment_pending"
    by auto
  with e show ?thesis by blast
qed

section \<open>Opening the escrow account\<close>

text \<open>
  Claim C10. \<open>openEscrow\<close> performs no phase validation: for every known transaction
  that has no escrow account, whatever its phase (\<open>COMPLETED\<close> and \<open>CANCELLED\<close>
  included), it succeeds, creates an escrow account with balance 0 and
  \<open>released = false\<close>, appends one \<open>ESCROW_OPENED\<close> audit event and leaves the phase
  unchanged; it throws exactly when the transaction identifier is unknown or an escrow
  account already exists.
\<close>

theorem openEscrow_ungated:
  "(s tid = Some tx \<and> escrow tx = None \<longrightarrow>
      (\<exists>tx' ev.
         fst (openEscrow tid act uuid now s) =
           Inr \<lparr>escrow_id = uuid, balance = 0, heldSince = now, released = False\<rparr>
       \<and> snd (openEscrow tid act uuid now s) tid = Some tx'
       \<and> escrow tx' = Some \<lparr>escrow_id = uuid, balance = 0, heldSince = now, released = False\<rparr>
       \<and> status tx' = status tx
       \<and> auditLog tx' = auditLog tx @ [ev] \<and> action ev = ''ESCROW_OPENED''
       \<and> previousStatus ev = None \<and> newStatus ev = None))
   \<and> ((\<exists>e. fst (openEscrow tid act uuid now s) = Inl e) \<longleftrightarrow>
        (s tid = None \<or> (\<exists>tx. s tid = Some tx \<and> escrow tx \<noteq> None)))"
  by (auto simp: openEscrow_def getTransaction_def addAuditEvent_def Let_def split: option.splits)

text \<open>
  Witness for C10: a transaction cancelled before any escrow account was opened still
  gets one.
\<close>

theorem openEscrow_ungated_witness:
  "cancelled_unfunded ''tx-1'' = Some cancelled_unfunded_tx
   \<and> escrow cancelled_unfunded_tx = None
   \<and> status cancelled_unfunded_tx = CANCELLED
   \<and> (\<exists>tx' ev.
         fst (openEscrow ''tx-1'' ''SYSTEM'' ''esc-1'' 8 cancelled_unfunded) =
           Inr \<lparr>escrow_id = ''esc-1'', balance = 0, heldSince = 8, released = False\<rparr>
       \<and> snd (openEscrow ''tx-1'' ''SYSTEM'' ''esc-1'' 8 cancelled_unfunded) ''tx-1'' = Some tx'
       \<and> escrow tx' =
           Some \<lparr>escrow_id = ''esc-1'', balance = 0, heldSince = 8, released = False\<rparr>
       \<and> status tx' = status cancelled_unfunded_tx
       \<and> auditLog tx' = auditLog cancelled_unfunded_tx @ [ev]
       \<and> action ev = ''ESCROW_OPENED''
       \<and> previousStatus ev = None \<and> newStatus ev = None)"
proof -
  have h: "cancelled_unfunded ''tx-1'' = Some cancelled_unfunded_tx
           \<and> escrow cancelled_unfunded_tx = None
           \<and> status cancelled_unfunded_tx = CANCELLED"
    by code_simp
  with openEscrow_ungated
         [of cancelled_unfunded "''tx-1''" cancelled_unfunded_tx "''SYSTEM''" "''esc-1''" 8]
  show ?thesis by blast
qed

section \<open>The audit log follows the phase\<close>

text \<open>
  Claim C4, as amended. Along every sequence of calls (each new transaction being given
  an identifier not in use) the audit log of a transaction only grows: the log after the
  calls is the log before them followed by the new events, so no event is removed or
  changed. The \<open>STATUS_CHANGED\<close> events among the new ones record the assignments made
  to the phase one for one: each carries a previous and a new phase, the previous phase
  of the first is the phase before the calls, the previous phase of each later one is the
  new phase of the one before it, and the new phase of the last is the phase after the
  calls (when there is none, the phase is unchanged). Conversely, in the log of every
  transaction of a store reached from the empty one, the \<open>STATUS_CHANGED\<close> events lead
  in this way from \<open>INITIATED\<close> to the current phase, and each of them changes the
  phase, with two exceptions only: \<open>CANCELLED\<close> to \<open>CANCELLED\<close>
  (\<open>cancelTransaction\<close> on a cancelled transaction) and \<open>DISPUTED\<close> to
  \<open>DISPUTED\<close> (\<open>raiseDispute\<close> on a disputed one).
\<close>

theorem audit_log_tracks_phase:
  "((s :: ('n::{plus,zero,ord}) store) tid = Some tx \<and> fresh cs s \<longrightarrow>
      (\<exists>tx' evs. execs cs s tid = Some tx' \<and> auditLog tx' = auditLog tx @ evs
         \<and> follows any_edge (status tx) (changes evs) (status tx')))
   \<and> (fresh cs' Map.empty \<and> execs cs' Map.empty tid' = Some (tx'' :: 'n Transaction) \<longrightarrow>
         follows change_or_known_loop INITIATED (changes (auditLog tx'')) (status tx''))
   \<and> (\<exists>tx'. exec (Initiate p sl b u u2 t n) s u = Some tx'
         \<and> follows change_or_known_loop INITIATED (changes (auditLog tx')) (status tx'))"
proof (intro conjI impI)
  assume "s tid = Some tx \<and> fresh cs s"
  then show "\<exists>tx' evs. execs cs s tid = Some tx' \<and> auditLog tx' = auditLog tx @ evs
         \<and> follows any_edge (status tx) (changes evs) (status tx')"
    using run_log [of s tid tx cs] by blast
next
  assume a: "fresh cs' Map.empty \<and> execs cs' Map.empty tid' = Some tx''"
  have "\<forall>i x. (Map.empty :: 'n store) i = Some x \<longrightarrow>
      resting (status x)
      \<and> follows change_or_known_loop INITIATED (changes (auditLog x)) (status x)"
    by simp
  from run_history [OF this, of cs' tid' tx''] a
  show "follows change_or_known_loop INITIATED (changes (auditLog tx'')) (status tx'')"
    by blast
next
  show "\<exists>tx'. exec (Initiate p sl b u u2 t n) s u = Some tx'
         \<and> follows change_or_known_loop INITIATED (changes (auditLog tx')) (status tx')"
    using initiate_history [of p sl b u u2 t n s] by blast
qed

text \<open>
  Witness for C4: the remainder of the happy path, run on the freshly initiated
  transaction; and, from the empty store, the initiation followed by two disputes and a
  cancellation.
\<close>

theorem audit_log_tracks_phase_witness:
  "(started ''tx-1'' = Some started_tx \<and> fresh (tl happy_path) started
    \<and> (\<exists>tx' evs. execs (tl happy_path) started ''tx-1'' = Some tx'
          \<and> auditLog tx' = auditLog started_tx @ evs
          \<and> follows any_edge (status started_tx) (changes evs) (status tx')))
   \<and> (fresh (initiate1 # dispute_then_cancel) Map.empty
    \<and> execs (initiate1 # dispute_then_cancel) Map.empty ''tx-1'' =
         Some (the (execs (initiate1 # dispute_then_cancel) Map.empty ''tx-1''))
    \<and> follows change_or_known_loop INITIATED
         (changes (log_of (execs (initiate1 # dispute_then_cancel) Map.empty) ''tx-1''))
         CANCELLED)"
proof -
  have h: "started ''tx-1'' = Some started_tx \<and> fresh (tl happy_path) started"
    by code_simp
  have g: "fresh (initiate1 # dispute_then_cancel) Map.empty
    \<and> execs (initiate1 # dispute_then_cancel) Map.empty ''tx-1'' =
         Some (the (execs (initiate1 # dispute_then_cancel) Map.empty ''tx-1''))"
    by code_simp
  have v: "log_of (execs (initiate1 # dispute_then_cancel) Map.empty) ''tx-1'' =
             auditLog (the (execs (initiate1 # dispute_then_cancel) Map.empty ''tx-1''))
           \<and> status (the (execs (initiate1 # dispute_then_cancel) Map.empty ''tx-1'')) =
             CANCELLED"
    by code_simp
  from h audit_log_tracks_phase
      [where s = started and tid = "''tx-1''" and tx = started_tx and cs = "tl happy_path",
       THEN conjunct1]
  have 1: "\<exists>tx' evs. execs (tl happy_path) started ''tx-1'' = Some tx'
          \<and> auditLog tx' = auditLog started_tx @ evs
          \<and> follows any_edge (status started_tx) (changes evs) (status tx')"
    by blast
  from g audit_log_tracks_phase
      [where cs' = "initiate1 # dispute_then_cancel" and tid' = "''tx-1''"
         and tx'' = "the (execs (initiate1 # dispute_then_cancel) Map.empty ''tx-1'')",
       THEN conjunct2, THEN conjunct1]
  have "follows change_or_known_loop INITIATED
          (changes (auditLog (the (execs (initiate1 # dispute_then_cancel) Map.empty ''tx-1''))))
          (status (the (execs (initiate1 # dispute_then_cancel) Map.empty ''tx-1'')))"
    by blast
  with v have 2: "follows change_or_known_loop INITIATED
         (changes (log_of (execs (initiate1 # dispute_then_cancel) Map.empty) ''tx-1''))
         CANCELLED"
    by simp
  from h g 1 2 show ?thesis by blast
qed

text \<open>
  Counterexample to C4 as stated ("no \<open>STATUS_CHANGED\<close> event is appended without a
  corresponding phase change"): cancelling the already cancelled transaction of the
  demo's second scenario succeeds, the phase is \<open>CANCELLED\<close> before and after, and
  the call appends a \<open>STATUS_CHANGED\<close> event from \<open>CANCELLED\<close> to \<open>CANCELLED\<close>.
\<close>

theorem repeated_cancel_is_recorded:
  "status_of cancelled ''tx-1'' = Some CANCELLED
   \<and> failure (CancelTransaction ''tx-1'' ''buyer-1'' ''Buyer changed mind'' 6) cancelled = None
   \<and> status_of (exec (CancelTransaction ''tx-1'' ''buyer-1'' ''Buyer changed mind'' 6) cancelled)
        ''tx-1'' = Some CANCELLED
   \<and> changes (drop (length (log_of cancelled ''tx-1''))
        (log_of (exec (CancelTransaction ''tx-1'' ''buyer-1'' ''Buyer changed mind'' 6) cancelled)
           ''tx-1''))
       = [(Some CANCELLED, Some CANCELLED)]"
  by code_simp

section \<open>The phase moves along edges\<close>

text \<open>
  Claim C1, as amended. Along every sequence of calls in which no \<open>verifyDocument\<close> is
  made outside \<open>DOCUMENTS_PENDING\<close> and no \<open>confirmPayment\<close> outside
  \<open>PAYMENT_PENDING\<close> (and each new transaction is given an identifier not in use),
  the transitions recorded for a transaction lead from its phase
  before to its phase after, each along an edge of the table of section 4.1 or along one
  of the edges the guards of the code add to it: \<open>cancelTransaction\<close> takes every phase
  but \<open>COMPLETED\<close> to \<open>CANCELLED\<close> (\<open>CANCELLED\<close> itself included) and
  \<open>raiseDispute\<close> takes every phase but \<open>COMPLETED\<close> and \<open>CANCELLED\<close> to
  \<open>DISPUTED\<close> (\<open>DISPUTED\<close> itself included). Along such calls a \<open>COMPLETED\<close>
  transaction stays \<open>COMPLETED\<close> with no transition recorded, and a \<open>CANCELLED\<close> one
  stays \<open>CANCELLED\<close>. A new transaction goes from \<open>INITIATED\<close> to
  \<open>DOCUMENTS_PENDING\<close> along the table's edges. What \<open>verifyDocument\<close> and
  \<open>confirmPayment\<close> do in other phases is not part of this statement.
\<close>

theorem phase_moves_along_code_edges:
  "(s tid = Some tx \<and> disciplined cs s \<longrightarrow>
      (\<exists>tx' evs. execs cs s tid = Some tx' \<and> auditLog tx' = auditLog tx @ evs
         \<and> follows code_edge (status tx) (changes evs) (status tx')
         \<and> (status tx = COMPLETED \<longrightarrow> status tx' = COMPLETED \<and> changes evs = [])
         \<and> (status tx = CANCELLED \<longrightarrow> status tx' = CANCELLED)))
   \<and> (\<exists>tx'. exec (Initiate p sl b u u2 t n) s u = Some tx'
         \<and> status tx' = DOCUMENTS_PENDING
         \<and> follows spec_edge INITIATED (changes (auditLog tx')) (status tx'))"
proof (intro conjI impI)
  assume "s tid = Some tx \<and> disciplined cs s"
  then obtain tx' evs where
    1: "execs cs s tid = Some tx'" "auditLog tx' = auditLog tx @ evs"
       "follows code_edge (status tx) (changes evs) (status tx')"
    using run_edges [of s tid tx cs] by blast
  have "status tx = COMPLETED \<longrightarrow> status tx' = COMPLETED \<and> changes evs = []"
    using 1(3) follows_completed [of "changes evs" "status tx'"] by auto
  moreover have "status tx = CANCELLED \<longrightarrow> status tx' = CANCELLED"
    using 1(3) follows_cancelled [of "changes evs" "status tx'"] by auto
  ultimately show "\<exists>tx' evs. execs cs s tid = Some tx' \<and> auditLog tx' = auditLog tx @ evs
         \<and> follows code_edge (status tx) (changes evs) (status tx')
         \<and> (status tx = COMPLETED \<longrightarrow> status tx' = COMPLETED \<and> changes evs = [])
         \<and> (status tx = CANCELLED \<longrightarrow> status tx' = CANCELLED)"
    using 1 by blast
next
  show "\<exists>tx'. exec (Initiate p sl b u u2 t n) s u = Some tx'
         \<and> status tx' = DOCUMENTS_PENDING
         \<and> follows spec_edge INITIATED (changes (auditLog tx')) (status tx')"
    by (simp add: initiateTransaction_def helper_defs Let_def changes_def spec_edge_def)
qed

text \<open>
  Witness for C1: the remainder of the happy path on the freshly initiated transaction
  (every \<open>verifyDocument\<close> and \<open>confirmPayment\<close> of it is in phase); a cancellation,
  a dispute and an upload attempted on the completed transaction; a second cancellation
  of the cancelled one.
\<close>

theorem phase_moves_along_code_edges_witness:
  "(started ''tx-1'' = Some started_tx \<and> disciplined (tl happy_path) started
    \<and> (\<exists>tx' evs. execs (tl happy_path) started ''tx-1'' = Some tx'
          \<and> auditLog tx' = auditLog started_tx @ evs
          \<and> follows code_edge (status started_tx) (changes evs) (status tx')))
   \<and> (completed ''tx-1'' = Some completed_tx \<and> status completed_tx = COMPLETED
    \<and> disciplined dispute_then_cancel completed
    \<and> status_of (execs dispute_then_cancel completed) ''tx-1'' = Some COMPLETED)
   \<and> (cancelled ''tx-1'' = Some cancelled_tx \<and> status cancelled_tx = CANCELLED
    \<and> disciplined dispute_then_cancel cancelled
    \<and> status_of (execs dispute_then_cancel cancelled) ''tx-1'' = Some CANCELLED)"
proof (intro conjI)
  have h1: "started ''tx-1'' = Some started_tx \<and> disciplined (tl happy_path) started"
    by code_simp
  then show "started ''tx-1'' = Some started_tx" and "disciplined (tl happy_path) started"
    by simp_all
  from h1 phase_moves_along_code_edges
            [of started "''tx-1''" started_tx "tl happy_path", THEN conjunct1]
  show "\<exists>tx' evs. execs (tl happy_path) started ''tx-1'' = Some tx'
          \<and> auditLog tx' = auditLog started_tx @ evs
          \<and> follows code_edge (status started_tx) (changes evs) (status tx')"
    by blast
next
  have h2: "completed ''tx-1'' = Some completed_tx \<and> status completed_tx = COMPLETED
            \<and> disciplined dispute_then_cancel completed"
    by code_simp
  then show "completed ''tx-1'' = Some completed_tx" and "status completed_tx = COMPLETED"
    and "disciplined dispute_then_cancel completed"
    by simp_all
  from h2 phase_moves_along_code_edges
            [of completed "''tx-1''" completed_tx dispute_then_cancel, THEN conjunct1]
  show "status_of (execs dispute_then_cancel completed) ''tx-1'' = Some COMPLETED"
    by (auto simp: status_of_def)
next
  have h3: "cancelled ''tx-1'' = Some cancelled_tx \<and> status cancelled_tx = CANCELLED
            \<and> disciplined dispute_then_cancel cancelled"
    by code_simp
  then show "cancelled ''tx-1'' = Some cancelled_tx" and "status cancelled_tx = CANCELLED"
    and "disciplined dispute_then_cancel cancelled"
    by simp_all
  from h3 phase_moves_along_code_edges
            [of cancelled "''tx-1''" cancelled_tx dispute_then_cancel, THEN conjunct1]
  show "status_of (execs dispute_then_cancel cancelled) ''tx-1'' = Some CANCELLED"
    by (auto simp: status_of_def)
qed

text \<open>
  Counterexample to C1 as stated: after initiation, two disputes and a cancellation the
  audit log records \<open>DISPUTED \<rightarrow> DISPUTED\<close>, a self-loop, and
  \<open>DISPUTED \<rightarrow> CANCELLED\<close>; neither is an edge of the table of section 4.1.
\<close>

theorem unlisted_transitions_recorded:
  "fresh (initiate1 # dispute_then_cancel) Map.empty
   \<and> changes (log_of (execs (initiate1 # dispute_then_cancel) Map.empty) ''tx-1'') =
       [(Some INITIATED, Some CONTRACT_GENERATED),
        (Some CONTRACT_GENERATED, Some DOCUMENTS_PENDING),
        (Some DOCUMENTS_PENDING, Some DISPUTED),
        (Some DISPUTED, Some DISPUTED),
        (Some DISPUTED, Some CANCELLED)]
   \<and> \<not> spec_edge DISPUTED DISPUTED \<and> \<not> spec_edge DISPUTED CANCELLED"
  by code_simp

section \<open>The escrow balance\<close>

lemma running_sum_snoc:
  "running_sum acc (xs @ [Some a]) = map_option (\<lambda>b. b + a) (running_sum acc xs)"
proof (induction xs arbitrary: acc)
  case Nil
  then show ?case by simp
next
  case (Cons x xs)
  then show ?case by (cases x) simp_all
qed

lemma map_update_first:
  "(\<And>x. g (f x) = g x) \<Longrightarrow> map g (update_first p f xs) = map g xs"
  by (induction xs) auto

lemma escrowSum_via:
  "escrowSum ys =
   running_sum 0 (map fst (filter (\<lambda>x. snd x = ESCROW)
                    (map (\<lambda>p. (amount p, payment_method p)) ys)))"
  by (simp add: escrowSum_def filter_map comp_def)

lemma escrowSum_drop_confirm:
  "escrowSum (drop k (update_first p (\<lambda>x. x\<lparr>confirmed := True\<rparr>) xs)) = escrowSum (drop k xs)"
proof -
  have "map (\<lambda>p. (amount p, payment_method p)) (update_first p (\<lambda>x. x\<lparr>confirmed := True\<rparr>) xs) =
        map (\<lambda>p. (amount p, payment_method p)) xs"
    by (rule map_update_first) simp
  then show ?thesis by (simp add: escrowSum_via drop_map [symmetric])
qed

lemma running_sum_snoc_None: "running_sum acc (xs @ [None]) = None"
proof (induction xs arbitrary: acc)
  case Nil
  then show ?case by simp
next
  case (Cons x xs)
  then show ?case by (cases x) simp_all
qed

lemma escrowSum_snoc:
  "escrowSum (ps @ [p]) =
     (if payment_method p = ESCROW
      then (case amount p of None \<Rightarrow> None
            | Some a \<Rightarrow> map_option (\<lambda>b. b + a) (escrowSum ps))
      else escrowSum ps)"
  by (cases "amount p") (simp_all add: escrowSum_def running_sum_snoc running_sum_snoc_None)

lemma step_escrow:
  assumes "s tid = Some tx" and "escrow tx = Some e" and "fresh_op c s" and "typed c"
    and "k \<le> length (payments tx)" and "escrowSum (drop k (payments tx)) = Some (balance e)"
  shows "\<exists>tx' e'. exec c s tid = Some tx' \<and> escrow tx' = Some e'
           \<and> k \<le> length (payments tx') \<and> escrowSum (drop k (payments tx')) = Some (balance e')"
  using assms
  by (cases c)
     (auto simp: op_defs helper_defs initiateTransaction_def Let_def escrowSum_snoc
                 escrowSum_drop_confirm
           split: option.splits)

lemma run_escrow:
  "s tid = Some tx \<Longrightarrow> escrow tx = Some e \<Longrightarrow> fresh cs s \<Longrightarrow> list_all typed cs \<Longrightarrow>
   k \<le> length (payments tx) \<Longrightarrow> escrowSum (drop k (payments tx)) = Some (balance e) \<Longrightarrow>
   \<exists>tx' e'. execs cs s tid = Some tx' \<and> escrow tx' = Some e'
      \<and> k \<le> length (payments tx') \<and> escrowSum (drop k (payments tx')) = Some (balance e')"
proof (induction cs arbitrary: s tx e)
  case Nil
  then show ?case by simp
next
  case (Cons c cs)
  from Cons.prems have f: "fresh_op c s" and r: "fresh cs (exec c s)"
    and t: "typed c" and ts: "list_all typed cs" by simp_all
  from step_escrow [OF Cons.prems(1,2) f t Cons.prems(5,6)] obtain tx1 e1 where
    1: "exec c s tid = Some tx1" "escrow tx1 = Some e1" "k \<le> length (payments tx1)"
       "escrowSum (drop k (payments tx1)) = Some (balance e1)" by blast
  from Cons.IH [OF 1(1,2) r ts 1(3,4)] show ?case by simp
qed

lemma openEscrow_starts:
  assumes "s tid = Some tx" and "escrow tx = None"
  shows "\<exists>tx' e. snd (openEscrow tid act uuid now s) tid = Some tx' \<and> escrow tx' = Some e
          \<and> balance e = 0 \<and> payments tx' = payments tx"
  using assms by (simp add: openEscrow_def helper_defs Let_def)

lemma complete_keeps_balance:
  "balance_of (snd (completeOwnershipTransfer tid nid now s)) tid = balance_of s tid"
  by (auto simp: balance_of_def completeOwnershipTransfer_def helper_defs Let_def
           split: option.splits)

text \<open>
  Claim C3, as amended. Once \<open>openEscrow\<close> has created the escrow account of a
  transaction, then after every sequence of calls (each given arguments of the declared
  types, each new transaction an identifier not in use) the balance of the account is
  the sum of the amounts of the \<open>ESCROW\<close>-method payments submitted since the account
  was opened, confirmed or not, where the sum is formed as the code forms it: from 0,
  each amount added in the order of submission, in the arithmetic of \<open>number\<close> (for
  doubles, rounded at each step). The payments the transaction already had when the
  account was opened are not counted, whatever their method.
  \<open>completeOwnershipTransfer\<close>, which releases the account, does not change the
  balance.
\<close>

theorem escrow_balance_since_opening:
  "(s tid = Some tx \<and> escrow tx = None
      \<and> fresh cs (snd (openEscrow tid act uuid now s)) \<and> list_all typed cs \<longrightarrow>
      (\<exists>tx' e'. execs cs (snd (openEscrow tid act uuid now s)) tid = Some tx'
         \<and> escrow tx' = Some e'
         \<and> length (payments tx) \<le> length (payments tx')
         \<and> escrowSum (drop (length (payments tx)) (payments tx')) = Some (balance e')))
   \<and> balance_of (snd (completeOwnershipTransfer tid nid now' s)) tid = balance_of s tid"
proof (intro conjI impI)
  assume a: "s tid = Some tx \<and> escrow tx = None
      \<and> fresh cs (snd (openEscrow tid act uuid now s)) \<and> list_all typed cs"
  let ?s1 = "snd (openEscrow tid act uuid now s)"
  from a openEscrow_starts [of s tid tx act uuid now] obtain tx1 e1 where
    1: "?s1 tid = Some tx1" "escrow tx1 = Some e1" "balance e1 = 0" "payments tx1 = payments tx"
    by blast
  have "escrowSum (drop (length (payments tx)) (payments tx1)) = Some (balance e1)"
    using 1 by (simp add: escrowSum_def)
  moreover have "length (payments tx) \<le> length (payments tx1)" using 1 by simp
  ultimately obtain tx' e' where
    2: "execs cs ?s1 tid = Some tx'" "escrow tx' = Some e'"
       "length (payments tx) \<le> length (payments tx')"
       "escrowSum (drop (length (payments tx)) (payments tx')) = Some (balance e')"
    using run_escrow [of ?s1 tid tx1 e1 cs "length (payments tx)"] 1 a by blast
  then show "\<exists>tx' e'. execs cs ?s1 tid = Some tx'
         \<and> escrow tx' = Some e'
         \<and> length (payments tx) \<le> length (payments tx')
         \<and> escrowSum (drop (length (payments tx)) (payments tx')) = Some (balance e')"
    by blast
next
  show "balance_of (snd (completeOwnershipTransfer tid nid now' s)) tid = balance_of s tid"
    by (rule complete_keeps_balance)
qed

text \<open>
  Witness for C3: the happy path of the demo, where the escrow account is opened right
  after initiation; the escrow payment of 350000 is credited and the release at
  completion leaves the balance at 350000.
\<close>

theorem escrow_balance_since_opening_witness:
  "started ''tx-1'' = Some started_tx \<and> escrow started_tx = None
   \<and> fresh (tl (tl happy_path)) (snd (openEscrow ''tx-1'' ''SYSTEM'' ''esc-1'' 2 started))
   \<and> list_all typed (tl (tl happy_path))
   \<and> (\<exists>tx' e'. execs (tl (tl happy_path))
               (snd (openEscrow ''tx-1'' ''SYSTEM'' ''esc-1'' 2 started)) ''tx-1'' = Some tx'
         \<and> escrow tx' = Some e'
         \<and> length (payments started_tx) \<le> length (payments tx')
         \<and> escrowSum (drop (length (payments started_tx)) (payments tx')) =
             Some (balance e'))
   \<and> balance_of completed ''tx-1'' = Some (Finite 350000)
   \<and> escrowSum (payments_of completed ''tx-1'') = Some (Finite 350000)"
proof -
  have h: "started ''tx-1'' = Some started_tx \<and> escrow started_tx = None
     \<and> fresh (tl (tl happy_path)) (snd (openEscrow ''tx-1'' ''SYSTEM'' ''esc-1'' 2 started))
     \<and> list_all typed (tl (tl happy_path))"
    by code_simp
  have b: "balance_of completed ''tx-1'' = Some (Finite 350000)
     \<and> escrowSum (payments_of completed ''tx-1'') = Some (Finite 350000)"
    by code_simp
  from h b escrow_balance_since_opening
      [of started "''tx-1''" started_tx "tl (tl happy_path)" "''SYSTEM''" "''esc-1''" 2,
       THEN conjunct1]
  show ?thesis by blast
qed

text \<open>
  Counterexample to C3 as stated. (1) An \<open>ESCROW\<close>-method payment of 350000 is
  submitted before the escrow account is opened: the account then exists with balance
  0, while the \<open>ESCROW\<close>-method payments of the transaction sum to 350000. (2) With the
  account opened first, \<open>ESCROW\<close>-method payments of \<open>2 ^ 53\<close>, 1 and 1 leave the
  balance at \<open>2 ^ 53\<close>, each 1 being rounded away as it is added, while the amounts
  sum to \<open>2 ^ 53 + 2\<close>.
\<close>

theorem escrow_balance_is_not_the_sum:
  "fresh late_escrow_scenario Map.empty \<and> list_all typed late_escrow_scenario
   \<and> balance_of (execs late_escrow_scenario Map.empty) ''tx-1'' = Some (Finite 0)
   \<and> exact_escrow_sum_of (execs late_escrow_scenario Map.empty) ''tx-1'' = Some 350000
   \<and> fresh rounding_scenario Map.empty \<and> list_all typed rounding_scenario
   \<and> balance_of rounded ''tx-1'' = Some (Finite 9007199254740992)
   \<and> exact_escrow_sum_of rounded ''tx-1'' = Some 9007199254740994"
  by code_simp

section \<open>Flags flip once\<close>

lemma verify_again:
  "found_document s tid d = Some doc \<Longrightarrow> verified doc \<Longrightarrow>
   verifyDocument tid d vb now s = (Inl (DocumentAlreadyVerified d), s)"
  by (auto simp: found_document_def verifyDocument_def getTransaction_def split: option.splits)

lemma confirm_again:
  "found_payment s tid p = Some pay \<Longrightarrow> confirmed pay \<Longrightarrow>
   confirmPayment tid p cb now s = (Inl PaymentAlreadyConfirmed, s)"
  by (auto simp: found_payment_def confirmPayment_def getTransaction_def split: option.splits)

lemma verify_success:
  "fst (verifyDocument tid d vb now s) = Inr () \<Longrightarrow>
   \<exists>doc. found_document s tid d = Some doc \<and> \<not> verified doc
     \<and> found_document (snd (verifyDocument tid d vb now s)) tid d =
         Some (doc\<lparr>verified := True, verifiedBy := Some vb, verifiedAt := Some now\<rparr>)"
  by (auto simp: found_document_def verifyDocument_def helper_defs Let_def find_update_first_same
           split: option.splits if_splits)

lemma confirm_success:
  "fst (confirmPayment tid p cb now s) = Inr () \<Longrightarrow>
   \<exists>pay. found_payment s tid p = Some pay \<and> \<not> confirmed pay
     \<and> found_payment (snd (confirmPayment tid p cb now s)) tid p =
         Some (pay\<lparr>confirmed := True\<rparr>)"
  by (auto simp: found_payment_def confirmPayment_def helper_defs Let_def find_update_first_same
           split: option.splits if_splits)

lemma step_found_document:
  assumes "found_document s tid d = Some doc" and "verified doc" and "fresh_op c s"
  shows "found_document (exec c s) tid d = Some doc"
proof (cases c)
  case (VerifyDocument i d' vb n)
  show ?thesis
  proof (cases "fst (verifyDocument i d' vb n s)")
    case (Inl e)
    then have "failure c s = Some e" and "typed c" using VerifyDocument by simp_all
    then have "exec c s = s" using failed_call_unchanged [of c s e] by simp
    with assms show ?thesis by simp
  next
    case (Inr u)
    show ?thesis
    proof (cases "i = tid \<and> d' = d")
      case True
      with Inr verify_success [of tid d vb n s] assms show ?thesis by auto
    next
      case False
      then have "i \<noteq> tid \<or> d' \<noteq> d" by simp
      with Inr assms VerifyDocument show ?thesis
        by (auto simp: found_document_def verifyDocument_def helper_defs Let_def
                       find_document_update_other
                 split: option.splits if_splits)
    qed
  qed
qed (use assms in \<open>auto simp: found_document_def op_defs helper_defs initiateTransaction_def
       Let_def find_append_Some split: option.splits if_splits\<close>)

lemma step_found_payment:
  assumes "found_payment s tid p = Some pay" and "confirmed pay" and "fresh_op c s"
  shows "found_payment (exec c s) tid p = Some pay"
proof (cases c)
  case (ConfirmPayment i p' cb n)
  show ?thesis
  proof (cases "fst (confirmPayment i p' cb n s)")
    case (Inl e)
    then have "failure c s = Some e" and "typed c" using ConfirmPayment by simp_all
    then have "exec c s = s" using failed_call_unchanged [of c s e] by simp
    with assms show ?thesis by simp
  next
    case (Inr u)
    show ?thesis
    proof (cases "i = tid \<and> p' = p")
      case True
      with Inr confirm_success [of tid p cb n s] assms show ?thesis by auto
    next
      case False
      then have "i \<noteq> tid \<or> p' \<noteq> p" by simp
      with Inr assms ConfirmPayment show ?thesis
        by (auto simp: found_payment_def confirmPayment_def helper_defs Let_def
                       find_payment_update_other
                 split: option.splits if_splits)
    qed
  qed
qed (use assms in \<open>auto simp: found_payment_def op_defs helper_defs initiateTransaction_def
       Let_def find_append_Some split: option.splits if_splits\<close>)

lemma run_found_document:
  "found_document s tid d = Some doc \<Longrightarrow> verified doc \<Longrightarrow> fresh cs s \<Longrightarrow>
   found_document (execs cs s) tid d = Some doc"
proof (induction cs arbitrary: s)
  case Nil
  then show ?case by simp
next
  case (Cons c cs)
  then have "found_document (exec c s) tid d = Some doc"
    using step_found_document [of s tid d doc c] by simp
  with Cons show ?case by simp
qed

lemma run_found_payment:
  "found_payment s tid p = Some pay \<Longrightarrow> confirmed pay \<Longrightarrow> fresh cs s \<Longrightarrow>
   found_payment (execs cs s) tid p = Some pay"
proof (induction cs arbitrary: s)
  case Nil
  then show ?case by simp
next
  case (Cons c cs)
  then have "found_payment (exec c s) tid p = Some pay"
    using step_found_payment [of s tid p pay c] by simp
  with Cons show ?case by simp
qed

text \<open>
  Claim C8. The verified flag of a document and the confirmed flag of a payment go from
  false to true at most once. When \<open>verifyDocument\<close> succeeds, the document it found
  was unverified and is now verified, with the verifier and the time of this call; after
  any further sequence of calls (each new transaction being given an identifier not in
  use) the document found for that identifier is still exactly
  that record (flag, verifier and timestamp as set by the first call), and another
  \<open>verifyDocument\<close> on the identifier throws "already verified" and changes nothing.
  Likewise for \<open>confirmPayment\<close> and the confirmed flag, with "already confirmed".
\<close>

theorem flags_flip_once:
  "(fst (verifyDocument tid d vb now s) = Inr ()
      \<and> fresh cs (snd (verifyDocument tid d vb now s)) \<longrightarrow>
      (\<exists>doc. found_document s tid d = Some doc \<and> \<not> verified doc
         \<and> found_document (execs cs (snd (verifyDocument tid d vb now s))) tid d =
             Some (doc\<lparr>verified := True, verifiedBy := Some vb, verifiedAt := Some now\<rparr>)
         \<and> verifyDocument tid d vb' now' (execs cs (snd (verifyDocument tid d vb now s))) =
             (Inl (DocumentAlreadyVerified d), execs cs (snd (verifyDocument tid d vb now s)))))
   \<and> (fst (confirmPayment tid p cb now s) = Inr ()
      \<and> fresh cs (snd (confirmPayment tid p cb now s)) \<longrightarrow>
      (\<exists>pay. found_payment s tid p = Some pay \<and> \<not> confirmed pay
         \<and> found_payment (execs cs (snd (confirmPayment tid p cb now s))) tid p =
             Some (pay\<lparr>confirmed := True\<rparr>)
         \<and> confirmPayment tid p cb' now' (execs cs (snd (confirmPayment tid p cb now s))) =
             (Inl PaymentAlreadyConfirmed, execs cs (snd (confirmPayment tid p cb now s)))))"
proof (intro conjI impI)
  let ?s1 = "snd (verifyDocument tid d vb now s)"
  assume a: "fst (verifyDocument tid d vb now s) = Inr () \<and> fresh cs ?s1"
  then obtain doc where
    1: "found_document s tid d = Some doc" "\<not> verified doc"
       "found_document ?s1 tid d =
          Some (doc\<lparr>verified := True, verifiedBy := Some vb, verifiedAt := Some now\<rparr>)"
    using verify_success [of tid d vb now s] by blast
  let ?doc' = "doc\<lparr>verified := True, verifiedBy := Some vb, verifiedAt := Some now\<rparr>"
  have 2: "found_document (execs cs ?s1) tid d = Some ?doc'"
    using run_found_document [of ?s1 tid d ?doc' cs] 1 a by simp
  have "verifyDocument tid d vb' now' (execs cs ?s1) =
          (Inl (DocumentAlreadyVerified d), execs cs ?s1)"
    using verify_again [OF 2] by simp
  with 1 2 show "\<exists>doc. found_document s tid d = Some doc \<and> \<not> verified doc
         \<and> found_document (execs cs ?s1) tid d =
             Some (doc\<lparr>verified := True, verifiedBy := Some vb, verifiedAt := Some now\<rparr>)
         \<and> verifyDocument tid d vb' now' (execs cs ?s1) =
             (Inl (DocumentAlreadyVerified d), execs cs ?s1)"
    by blast
next
  let ?s1 = "snd (confirmPayment tid p cb now s)"
  assume a: "fst (confirmPayment tid p cb now s) = Inr () \<and> fresh cs ?s1"
  then obtain pay where
    1: "found_payment s tid p = Some pay" "\<not> confirmed pay"
       "found_payment ?s1 tid p = Some (pay\<lparr>confirmed := True\<rparr>)"
    using confirm_success [of tid p cb now s] by blast
  let ?pay' = "pay\<lparr>confirmed := True\<rparr>"
  have 2: "found_payment (execs cs ?s1) tid p = Some ?pay'"
    using run_found_payment [of ?s1 tid p ?pay' cs] 1 a by simp
  have "confirmPayment tid p cb' now' (execs cs ?s1) = (Inl PaymentAlreadyConfirmed, execs cs ?s1)"
    using confirm_again [OF 2] by simp
  with 1 2 show "\<exists>pay. found_payment s tid p = Some pay \<and> \<not> confirmed pay
         \<and> found_payment (execs cs ?s1) tid p = Some (pay\<lparr>confirmed := True\<rparr>)
         \<and> confirmPayment tid p cb' now' (execs cs ?s1) =
             (Inl PaymentAlreadyConfirmed, execs cs ?s1)"
    by blast
qed

text \<open>
  Witness for C8: the first guard of the demo's fourth scenario (a document verified,
  further calls, the same document verified again), and the payment of the happy path
  confirmed, the transfer completed, the payment confirmed again.
\<close>

theorem flags_flip_once_witness:
  "(fst (verifyDocument ''tx-1'' ''doc-a'' ''ai-notary-agent-v1'' 7 uploaded) = Inr ()
    \<and> fresh (tl verify_required)
         (snd (verifyDocument ''tx-1'' ''doc-a'' ''ai-notary-agent-v1'' 7 uploaded))
    \<and> fst (verifyDocument ''tx-1'' ''doc-a'' ''notary-1'' 11
         (execs (tl verify_required)
            (snd (verifyDocument ''tx-1'' ''doc-a'' ''ai-notary-agent-v1'' 7 uploaded)))) =
        Inl (DocumentAlreadyVerified ''doc-a''))
   \<and> (fst (confirmPayment ''tx-1'' ''pay-1'' ''bank-1'' 12 awaiting_confirmation) = Inr ()
    \<and> fresh (tl finish_happy_path)
         (snd (confirmPayment ''tx-1'' ''pay-1'' ''bank-1'' 12 awaiting_confirmation))
    \<and> fst (confirmPayment ''tx-1'' ''pay-1'' ''bank-1'' 14
         (execs (tl finish_happy_path)
            (snd (confirmPayment ''tx-1'' ''pay-1'' ''bank-1'' 12 awaiting_confirmation)))) =
        Inl PaymentAlreadyConfirmed)"
proof -
  have h1: "fst (verifyDocument ''tx-1'' ''doc-a'' ''ai-notary-agent-v1'' 7 uploaded) = Inr ()
    \<and> fresh (tl verify_required)
         (snd (verifyDocument ''tx-1'' ''doc-a'' ''ai-notary-agent-v1'' 7 uploaded))"
    by code_simp
  have h2: "fst (confirmPayment ''tx-1'' ''pay-1'' ''bank-1'' 12 awaiting_confirmation) = Inr ()
    \<and> fresh (tl finish_happy_path)
         (snd (confirmPayment ''tx-1'' ''pay-1'' ''bank-1'' 12 awaiting_confirmation))"
    by code_simp
  from h1 flags_flip_once
      [of "''tx-1''" "''doc-a''" "''ai-notary-agent-v1''" 7 uploaded "tl verify_required"
          "''notary-1''" 11, THEN conjunct1]
  have c1: "fst (verifyDocument ''tx-1'' ''doc-a'' ''notary-1'' 11
         (execs (tl verify_required)
            (snd (verifyDocument ''tx-1'' ''doc-a'' ''ai-notary-agent-v1'' 7 uploaded)))) =
        Inl (DocumentAlreadyVerified ''doc-a'')"
    by auto
  from h2 flags_flip_once
      [where tid = "''tx-1''" and p = "''pay-1''" and cb = "''bank-1''" and now = 12
         and s = awaiting_confirmation and cs = "tl finish_happy_path"
         and cb' = "''bank-1''" and now' = 14, THEN conjunct2]
  have c2: "fst (confirmPayment ''tx-1'' ''pay-1'' ''bank-1'' 14
         (execs (tl finish_happy_path)
            (snd (confirmPayment ''tx-1'' ''pay-1'' ''bank-1'' 12 awaiting_confirmation)))) =
        Inl PaymentAlreadyConfirmed"
    by auto
  from h1 h2 c1 c2 show ?thesis by blast
qed

section \<open>The automatic advances\<close>

lemma foldl_js_plus_None: "foldl (\<lambda>sum p. js_plus sum (amount p)) None ps = None"
  by (induction ps) simp_all

lemma foldl_js_plus_Some:
  "foldl (\<lambda>sum p. js_plus sum (amount p)) (Some a) ps = running_sum a (map amount ps)"
proof (induction ps arbitrary: a)
  case Nil
  then show ?case by simp
next
  case (Cons p ps)
  then show ?case by (cases "amount p") (simp_all add: foldl_js_plus_None)
qed

lemma totalConfirmed_spec: "totalConfirmed ps = confirmedSum ps"
  by (simp add: totalConfirmed_def confirmedSum_def foldl_js_plus_Some)

lemma js_ge_spec:
  "js_ge t p = (case t of None \<Rightarrow> False | Some sm \<Rightarrow> p \<le> sm)"
  by (cases t) simp_all

lemma update_first_found:
  "find P xs = Some y \<Longrightarrow>
   update_first P f xs = takeWhile (\<lambda>x. \<not> P x) xs @ f y # tl (dropWhile (\<lambda>x. \<not> P x) xs)"
  by (induction xs) (auto split: if_splits)

lemma verified_kind_iff:
  "t \<in> set (map document_type (filter verified ds)) \<longleftrightarrow>
   (\<exists>d \<in> set ds. verified d \<and> document_type d = t)"
  by force

lemma areAllRequired_spec:
  "areAllRequiredDocumentsVerified tx = required_kinds_verified (documents tx)"
  unfolding areAllRequiredDocumentsVerified_def required_kinds_verified_def
    REQUIRED_DOCUMENTS_def Let_def verified_kind_iff
  by simp

lemma required_not_optional:
  "t \<in> {TITLE_DEED, IDENTITY_SELLER, IDENTITY_BUYER, PURCHASE_AGREEMENT} \<Longrightarrow> \<not> optional_kind t"
  by (auto simp: optional_kind_def)

lemma required_ignore_optional:
  "required_kinds_verified (filter (\<lambda>d. \<not> optional_kind (document_type d)) ds) =
   required_kinds_verified ds"
  unfolding required_kinds_verified_def
proof (rule ball_cong [OF refl])
  fix t
  assume "t \<in> {TITLE_DEED, IDENTITY_SELLER, IDENTITY_BUYER, PURCHASE_AGREEMENT}"
  then have "\<not> optional_kind t" by (rule required_not_optional)
  then show "(\<exists>d \<in> set (filter (\<lambda>d. \<not> optional_kind (document_type d)) ds).
                verified d \<and> document_type d = t) =
             (\<exists>d \<in> set ds. verified d \<and> document_type d = t)"
    by auto
qed

lemma confirm_found:
  assumes "s tid = Some tx" and "fst (confirmPayment tid p cb now s) = Inr ()"
  shows "\<exists>pay. find (\<lambda>x. payment_id x = p) (payments tx) = Some pay \<and> \<not> confirmed pay"
  using assms
  by (auto simp: confirmPayment_def getTransaction_def split: option.splits if_splits)

lemma confirm_result:
  assumes "s tid = Some tx" and "find (\<lambda>x. payment_id x = p) (payments tx) = Some pay"
    and "\<not> confirmed pay"
  shows "snd (confirmPayment tid p cb now s) tid =
        Some (let tx3 = addAuditEvent
                (tx\<lparr>payments := update_first (\<lambda>x. payment_id x = p)
                                   (\<lambda>x. x\<lparr>confirmed := True\<rparr>) (payments tx),
                    updatedAt := now\<rparr>)
                cb ''PAYMENT_CONFIRMED'' (PaymentConfirmed p cb) None None now
              in if js_ge (totalConfirmed (payments tx3)) (price (property tx))
                 then transitionStatus (transitionStatus tx3 PAYMENT_RECEIVED cb now)
                        OWNERSHIP_TRANSFER_PENDING ''SYSTEM'' now
                 else tx3)"
  using assms
  by (simp add: confirmPayment_def getTransaction_def Let_def addAuditEvent_def)

lemma verify_found:
  assumes "s tid = Some tx" and "fst (verifyDocument tid d vb now s) = Inr ()"
  shows "\<exists>doc. find (\<lambda>x. document_id x = d) (documents tx) = Some doc \<and> \<not> verified doc"
  using assms
  by (auto simp: verifyDocument_def getTransaction_def split: option.splits if_splits)

lemma verify_result:
  assumes "s tid = Some tx" and "find (\<lambda>x. document_id x = d) (documents tx) = Some doc"
    and "\<not> verified doc"
  shows "snd (verifyDocument tid d vb now s) tid =
        Some (let tx3 = addAuditEvent
                (tx\<lparr>documents := update_first (\<lambda>x. document_id x = d)
                      (\<lambda>x. x\<lparr>verified := True, verifiedBy := Some vb, verifiedAt := Some now\<rparr>)
                      (documents tx),
                    updatedAt := now\<rparr>)
                vb ''DOCUMENT_VERIFIED'' (DocumentVerified (document_type doc) vb) None None now
              in if areAllRequiredDocumentsVerified tx3
                 then transitionStatus (transitionStatus tx3 DOCUMENTS_VERIFIED vb now)
                        PAYMENT_PENDING ''SYSTEM'' now
                 else tx3)"
  using assms
  by (simp add: verifyDocument_def getTransaction_def Let_def)

text \<open>
  Claim C6, as amended. For a transaction in phase \<open>PAYMENT_PENDING\<close>, a
  \<open>confirmPayment\<close> call that succeeds found the first payment with the identifier
  unconfirmed and confirms it, leaving every other payment and the property as they
  were. The sum that decides the advance is formed as the code forms it: from 0, the
  amount of each confirmed payment added in list order, in the arithmetic of
  \<open>number\<close> (for doubles, rounded at each step; there is no sum when a confirmed
  payment has an \<open>undefined\<close> amount). If that sum after the call reaches or exceeds the
  property price, the phase is advanced within that call through \<open>PAYMENT_RECEIVED\<close>
  to \<open>OWNERSHIP_TRANSFER_PENDING\<close>, as two recorded transitions; otherwise the phase
  stays \<open>PAYMENT_PENDING\<close> and no transition is recorded.
\<close>

theorem confirmPayment_advances:
  "s tid = Some tx \<and> status tx = PAYMENT_PENDING
     \<and> fst (confirmPayment tid p cb now s) = Inr () \<longrightarrow>
   (\<exists>tx' pay. snd (confirmPayment tid p cb now s) tid = Some tx'
      \<and> found_payment s tid p = Some pay \<and> \<not> confirmed pay
      \<and> payments tx' =
           takeWhile (\<lambda>x. payment_id x \<noteq> p) (payments tx) @ pay\<lparr>confirmed := True\<rparr> #
           tl (dropWhile (\<lambda>x. payment_id x \<noteq> p) (payments tx))
      \<and> property tx' = property tx
      \<and> (if (case confirmedSum (payments tx') of
                None \<Rightarrow> False
              | Some sm \<Rightarrow> price (property tx) \<le> sm)
          then status tx' = OWNERSHIP_TRANSFER_PENDING
             \<and> changes (drop (length (auditLog tx)) (auditLog tx')) =
                 [(Some PAYMENT_PENDING, Some PAYMENT_RECEIVED),
                  (Some PAYMENT_RECEIVED, Some OWNERSHIP_TRANSFER_PENDING)]
          else status tx' = PAYMENT_PENDING
             \<and> changes (drop (length (auditLog tx)) (auditLog tx')) = []))"
proof
  assume a: "s tid = Some tx \<and> status tx = PAYMENT_PENDING
     \<and> fst (confirmPayment tid p cb now s) = Inr ()"
  then obtain pay tx' where
    1: "find (\<lambda>x. payment_id x = p) (payments tx) = Some pay" "\<not> confirmed pay"
    and 2: "snd (confirmPayment tid p cb now s) tid = Some tx'"
    and 3: "tx' = (let tx3 = addAuditEvent
                (tx\<lparr>payments := update_first (\<lambda>x. payment_id x = p)
                                   (\<lambda>x. x\<lparr>confirmed := True\<rparr>) (payments tx),
                    updatedAt := now\<rparr>)
                cb ''PAYMENT_CONFIRMED'' (PaymentConfirmed p cb) None None now
              in if js_ge (totalConfirmed (payments tx3)) (price (property tx))
                 then transitionStatus (transitionStatus tx3 PAYMENT_RECEIVED cb now)
                        OWNERSHIP_TRANSFER_PENDING ''SYSTEM'' now
                 else tx3)"
    using confirm_found [of s tid tx p cb now] confirm_result [of s tid tx p _ cb now] by blast
  have f: "found_payment s tid p = Some pay"
    using a 1 by (simp add: found_payment_def)
  have u: "payments tx' = update_first (\<lambda>x. payment_id x = p)
                            (\<lambda>x. x\<lparr>confirmed := True\<rparr>) (payments tx)"
    by (simp add: 3 Let_def addAuditEvent_def transitionStatus_def)
  have q: "payments tx' =
           takeWhile (\<lambda>x. payment_id x \<noteq> p) (payments tx) @ pay\<lparr>confirmed := True\<rparr> #
           tl (dropWhile (\<lambda>x. payment_id x \<noteq> p) (payments tx))"
    using update_first_found [OF 1(1), of "\<lambda>x. x\<lparr>confirmed := True\<rparr>"] u by simp
  have r: "property tx' = property tx"
    by (simp add: 3 Let_def addAuditEvent_def transitionStatus_def)
  have g: "if (case confirmedSum (payments tx') of
                None \<Rightarrow> False
              | Some sm \<Rightarrow> price (property tx) \<le> sm)
          then status tx' = OWNERSHIP_TRANSFER_PENDING
             \<and> changes (drop (length (auditLog tx)) (auditLog tx')) =
                 [(Some PAYMENT_PENDING, Some PAYMENT_RECEIVED),
                  (Some PAYMENT_RECEIVED, Some OWNERSHIP_TRANSFER_PENDING)]
          else status tx' = PAYMENT_PENDING
             \<and> changes (drop (length (auditLog tx)) (auditLog tx')) = []"
    unfolding u
    using a
    by (simp add: 3 Let_def addAuditEvent_def transitionStatus_def changes_def
                  js_ge_spec totalConfirmed_spec)
  from 2 f 1(2) q r g show "\<exists>tx' pay. snd (confirmPayment tid p cb now s) tid = Some tx'
      \<and> found_payment s tid p = Some pay \<and> \<not> confirmed pay
      \<and> payments tx' =
           takeWhile (\<lambda>x. payment_id x \<noteq> p) (payments tx) @ pay\<lparr>confirmed := True\<rparr> #
           tl (dropWhile (\<lambda>x. payment_id x \<noteq> p) (payments tx))
      \<and> property tx' = property tx
      \<and> (if (case confirmedSum (payments tx') of
                None \<Rightarrow> False
              | Some sm \<Rightarrow> price (property tx) \<le> sm)
          then status tx' = OWNERSHIP_TRANSFER_PENDING
             \<and> changes (drop (length (auditLog tx)) (auditLog tx')) =
                 [(Some PAYMENT_PENDING, Some PAYMENT_RECEIVED),
                  (Some PAYMENT_RECEIVED, Some OWNERSHIP_TRANSFER_PENDING)]
          else status tx' = PAYMENT_PENDING
             \<and> changes (drop (length (auditLog tx)) (auditLog tx')) = [])"
    by blast
qed

text \<open>
  Witness for C6: on the happy path the escrow payment of 350000 equals the price and
  its confirmation takes the transaction to \<open>OWNERSHIP_TRANSFER_PENDING\<close>; a confirmed
  bank transfer of 100000 leaves it in \<open>PAYMENT_PENDING\<close>.
\<close>

theorem confirmPayment_advances_witness:
  "(awaiting_confirmation ''tx-1'' = Some awaiting_confirmation_tx
    \<and> status awaiting_confirmation_tx = PAYMENT_PENDING
    \<and> fst (confirmPayment ''tx-1'' ''pay-1'' ''bank-1'' 12 awaiting_confirmation) = Inr ()
    \<and> (\<exists>tx' pay.
          snd (confirmPayment ''tx-1'' ''pay-1'' ''bank-1'' 12 awaiting_confirmation) ''tx-1'' =
            Some tx'
        \<and> found_payment awaiting_confirmation ''tx-1'' ''pay-1'' = Some pay
        \<and> property tx' = property awaiting_confirmation_tx
        \<and> (if (case confirmedSum (payments tx') of
                  None \<Rightarrow> False
                | Some sm \<Rightarrow> price (property awaiting_confirmation_tx) \<le> sm)
            then status tx' = OWNERSHIP_TRANSFER_PENDING
               \<and> changes (drop (length (auditLog awaiting_confirmation_tx)) (auditLog tx')) =
                   [(Some PAYMENT_PENDING, Some PAYMENT_RECEIVED),
                    (Some PAYMENT_RECEIVED, Some OWNERSHIP_TRANSFER_PENDING)]
            else status tx' = PAYMENT_PENDING
               \<and> changes (drop (length (auditLog awaiting_confirmation_tx)) (auditLog tx')) = []))
    \<and> price_of awaiting_confirmation ''tx-1'' = Some (Finite 350000)
    \<and> confirmedSum (payments_of awaiting_confirmation ''tx-1'') = Some (Finite 0)
    \<and> confirmedSum (payments_of
          (snd (confirmPayment ''tx-1'' ''pay-1'' ''bank-1'' 12 awaiting_confirmation)) ''tx-1'') =
        Some (Finite 350000)
    \<and> status_of (snd (confirmPayment ''tx-1'' ''pay-1'' ''bank-1'' 12 awaiting_confirmation))
         ''tx-1'' = Some OWNERSHIP_TRANSFER_PENDING)
   \<and> (partly_paid ''tx-1'' = Some partly_paid_tx
    \<and> status partly_paid_tx = PAYMENT_PENDING
    \<and> fst (confirmPayment ''tx-1'' ''pay-1'' ''bank-1'' 12 partly_paid) = Inr ()
    \<and> (\<exists>tx' pay.
          snd (confirmPayment ''tx-1'' ''pay-1'' ''bank-1'' 12 partly_paid) ''tx-1'' = Some tx'
        \<and> found_payment partly_paid ''tx-1'' ''pay-1'' = Some pay
        \<and> property tx' = property partly_paid_tx
        \<and> (if (case confirmedSum (payments tx') of
                  None \<Rightarrow> False
                | Some sm \<Rightarrow> price (property partly_paid_tx) \<le> sm)
            then status tx' = OWNERSHIP_TRANSFER_PENDING
               \<and> changes (drop (length (auditLog partly_paid_tx)) (auditLog tx')) =
                   [(Some PAYMENT_PENDING, Some PAYMENT_RECEIVED),
                    (Some PAYMENT_RECEIVED, Some OWNERSHIP_TRANSFER_PENDING)]
            else status tx' = PAYMENT_PENDING
               \<and> changes (drop (length (auditLog partly_paid_tx)) (auditLog tx')) = []))
    \<and> price_of partly_paid ''tx-1'' = Some (Finite 350000)
    \<and> confirmedSum (payments_of
          (snd (confirmPayment ''tx-1'' ''pay-1'' ''bank-1'' 12 partly_paid)) ''tx-1'') =
        Some (Finite 100000)
    \<and> status_of (snd (confirmPayment ''tx-1'' ''pay-1'' ''bank-1'' 12 partly_paid)) ''tx-1'' =
        Some PAYMENT_PENDING)"
proof -
  have h1: "awaiting_confirmation ''tx-1'' = Some awaiting_confirmation_tx
    \<and> status awaiting_confirmation_tx = PAYMENT_PENDING
    \<and> fst (confirmPayment ''tx-1'' ''pay-1'' ''bank-1'' 12 awaiting_confirmation) = Inr ()"
    by code_simp
  have e1: "price_of awaiting_confirmation ''tx-1'' = Some (Finite 350000)
    \<and> confirmedSum (payments_of awaiting_confirmation ''tx-1'') = Some (Finite 0)
    \<and> confirmedSum (payments_of
          (snd (confirmPayment ''tx-1'' ''pay-1'' ''bank-1'' 12 awaiting_confirmation)) ''tx-1'') =
        Some (Finite 350000)
    \<and> status_of (snd (confirmPayment ''tx-1'' ''pay-1'' ''bank-1'' 12 awaiting_confirmation))
         ''tx-1'' = Some OWNERSHIP_TRANSFER_PENDING"
    by code_simp
  have h2: "partly_paid ''tx-1'' = Some partly_paid_tx
    \<and> status partly_paid_tx = PAYMENT_PENDING
    \<and> fst (confirmPayment ''tx-1'' ''pay-1'' ''bank-1'' 12 partly_paid) = Inr ()"
    by code_simp
  have e2: "price_of partly_paid ''tx-1'' = Some (Finite 350000)
    \<and> confirmedSum (payments_of
          (snd (confirmPayment ''tx-1'' ''pay-1'' ''bank-1'' 12 partly_paid)) ''tx-1'') =
        Some (Finite 100000)
    \<and> status_of (snd (confirmPayment ''tx-1'' ''pay-1'' ''bank-1'' 12 partly_paid)) ''tx-1'' =
        Some PAYMENT_PENDING"
    by code_simp
  from h1 confirmPayment_advances
      [of awaiting_confirmation "''tx-1''" awaiting_confirmation_tx "''pay-1''" "''bank-1''" 12]
  have c1: "\<exists>tx' pay.
          snd (confirmPayment ''tx-1'' ''pay-1'' ''bank-1'' 12 awaiting_confirmation) ''tx-1'' =
            Some tx'
        \<and> found_payment awaiting_confirmation ''tx-1'' ''pay-1'' = Some pay
        \<and> property tx' = property awaiting_confirmation_tx
        \<and> (if (case confirmedSum (payments tx') of
                  None \<Rightarrow> False
                | Some sm \<Rightarrow> price (property awaiting_confirmation_tx) \<le> sm)
            then status tx' = OWNERSHIP_TRANSFER_PENDING
               \<and> changes (drop (length (auditLog awaiting_confirmation_tx)) (auditLog tx')) =
                   [(Some PAYMENT_PENDING, Some PAYMENT_RECEIVED),
                    (Some PAYMENT_RECEIVED, Some OWNERSHIP_TRANSFER_PENDING)]
            else status tx' = PAYMENT_PENDING
               \<and> changes (drop (length (auditLog awaiting_confirmation_tx)) (auditLog tx')) = [])"
    by blast
  from h2 confirmPayment_advances
      [of partly_paid "''tx-1''" partly_paid_tx "''pay-1''" "''bank-1''" 12]
  have c2: "\<exists>tx' pay.
          snd (confirmPayment ''tx-1'' ''pay-1'' ''bank-1'' 12 partly_paid) ''tx-1'' = Some tx'
        \<and> found_payment partly_paid ''tx-1'' ''pay-1'' = Some pay
        \<and> property tx' = property partly_paid_tx
        \<and> (if (case confirmedSum (payments tx') of
                  None \<Rightarrow> False
                | Some sm \<Rightarrow> price (property partly_paid_tx) \<le> sm)
            then status tx' = OWNERSHIP_TRANSFER_PENDING
               \<and> changes (drop (length (auditLog partly_paid_tx)) (auditLog tx')) =
                   [(Some PAYMENT_PENDING, Some PAYMENT_RECEIVED),
                    (Some PAYMENT_RECEIVED, Some OWNERSHIP_TRANSFER_PENDING)]
            else status tx' = PAYMENT_PENDING
               \<and> changes (drop (length (auditLog partly_paid_tx)) (auditLog tx')) = [])"
    by blast
  from h1 e1 c1 h2 e2 c2 show ?thesis by blast
qed

text \<open>
  Counterexample to C6 as stated: the price is \<open>2 ^ 53 + 2\<close> and payments of
  \<open>2 ^ 53\<close>, 1 and 1 are confirmed in turn. The last \<open>confirmPayment\<close> is made in
  \<open>PAYMENT_PENDING\<close>, succeeds, and makes the sum of the confirmed amounts reach the
  price, \<open>2 ^ 53 + 2\<close>; yet the phase stays \<open>PAYMENT_PENDING\<close>, because the sum the
  code forms is \<open>2 ^ 53\<close>, each 1 having been rounded away.
\<close>

theorem rounded_sum_misses_price:
  "fresh rounding_setup Map.empty \<and> list_all typed rounding_setup
   \<and> status_of two_confirmed ''tx-1'' = Some PAYMENT_PENDING
   \<and> price_of two_confirmed ''tx-1'' = Some (Finite 9007199254740994)
   \<and> exact_confirmed_sum_of two_confirmed ''tx-1'' = Some 9007199254740993
   \<and> failure last_confirmation two_confirmed = None
   \<and> exact_confirmed_sum_of (exec last_confirmation two_confirmed) ''tx-1'' =
       Some 9007199254740994
   \<and> confirmedSum (payments_of (exec last_confirmation two_confirmed) ''tx-1'') =
       Some (Finite 9007199254740992)
   \<and> status_of (exec last_confirmation two_confirmed) ''tx-1'' = Some PAYMENT_PENDING"
  by code_simp

text \<open>
  Claim C7. For a transaction in phase \<open>DOCUMENTS_PENDING\<close>, a \<open>verifyDocument\<close> call
  that succeeds and after which each of the four required kinds (title deed, seller
  identity, buyer identity, purchase agreement) has at least one verified document
  advances the phase within that call through \<open>DOCUMENTS_VERIFIED\<close> to
  \<open>PAYMENT_PENDING\<close>, as two recorded transitions (two \<open>STATUS_CHANGED\<close> events);
  otherwise the phase stays \<open>DOCUMENTS_PENDING\<close> and no transition is recorded.
  Mortgage-approval and inspection-report documents play no part in the condition:
  leaving them out of the list of documents does not change it.
\<close>

theorem verifyDocument_advances:
  "(s tid = Some tx \<and> status tx = DOCUMENTS_PENDING
     \<and> fst (verifyDocument tid d vb now s) = Inr () \<longrightarrow>
   (\<exists>tx'. snd (verifyDocument tid d vb now s) tid = Some tx'
      \<and> (if required_kinds_verified (documents tx')
          then status tx' = PAYMENT_PENDING
             \<and> changes (drop (length (auditLog tx)) (auditLog tx')) =
                 [(Some DOCUMENTS_PENDING, Some DOCUMENTS_VERIFIED),
                  (Some DOCUMENTS_VERIFIED, Some PAYMENT_PENDING)]
          else status tx' = DOCUMENTS_PENDING
             \<and> changes (drop (length (auditLog tx)) (auditLog tx')) = [])))
   \<and> required_kinds_verified (filter (\<lambda>x. \<not> optional_kind (document_type x)) ds) =
       required_kinds_verified ds"
proof (intro conjI impI)
  assume a: "s tid = Some tx \<and> status tx = DOCUMENTS_PENDING
     \<and> fst (verifyDocument tid d vb now s) = Inr ()"
  then obtain doc tx' where
    1: "find (\<lambda>x. document_id x = d) (documents tx) = Some doc" "\<not> verified doc"
    and 2: "snd (verifyDocument tid d vb now s) tid = Some tx'"
    and 3: "tx' = (let tx3 = addAuditEvent
                (tx\<lparr>documents := update_first (\<lambda>x. document_id x = d)
                      (\<lambda>x. x\<lparr>verified := True, verifiedBy := Some vb, verifiedAt := Some now\<rparr>)
                      (documents tx),
                    updatedAt := now\<rparr>)
                vb ''DOCUMENT_VERIFIED'' (DocumentVerified (document_type doc) vb) None None now
              in if areAllRequiredDocumentsVerified tx3
                 then transitionStatus (transitionStatus tx3 DOCUMENTS_VERIFIED vb now)
                        PAYMENT_PENDING ''SYSTEM'' now
                 else tx3)"
    using verify_found [of s tid tx d vb now] verify_result [of s tid tx d _ vb now] by blast
  have g: "if required_kinds_verified (documents tx')
          then status tx' = PAYMENT_PENDING
             \<and> changes (drop (length (auditLog tx)) (auditLog tx')) =
                 [(Some DOCUMENTS_PENDING, Some DOCUMENTS_VERIFIED),
                  (Some DOCUMENTS_VERIFIED, Some PAYMENT_PENDING)]
          else status tx' = DOCUMENTS_PENDING
             \<and> changes (drop (length (auditLog tx)) (auditLog tx')) = []"
    using a
    by (simp add: 3 Let_def areAllRequired_spec addAuditEvent_def transitionStatus_def changes_def)
  from 2 g show "\<exists>tx'. snd (verifyDocument tid d vb now s) tid = Some tx'
      \<and> (if required_kinds_verified (documents tx')
          then status tx' = PAYMENT_PENDING
             \<and> changes (drop (length (auditLog tx)) (auditLog tx')) =
                 [(Some DOCUMENTS_PENDING, Some DOCUMENTS_VERIFIED),
                  (Some DOCUMENTS_VERIFIED, Some PAYMENT_PENDING)]
          else status tx' = DOCUMENTS_PENDING
             \<and> changes (drop (length (auditLog tx)) (auditLog tx')) = [])"
    by blast
next
  show "required_kinds_verified (filter (\<lambda>x. \<not> optional_kind (document_type x)) ds) =
       required_kinds_verified ds"
    by (rule required_ignore_optional)
qed

text \<open>
  Witness for C7: with three of the four required documents verified, verifying the
  purchase agreement takes the transaction to \<open>PAYMENT_PENDING\<close>; with none verified,
  verifying the title deed leaves it in \<open>DOCUMENTS_PENDING\<close>.
\<close>

theorem verifyDocument_advances_witness:
  "(three_verified ''tx-1'' = Some three_verified_tx
    \<and> status three_verified_tx = DOCUMENTS_PENDING
    \<and> fst (verifyDocument ''tx-1'' ''doc-d'' ''ai-notary-agent-v1'' 10 three_verified) = Inr ()
    \<and> (\<exists>tx'. snd (verifyDocument ''tx-1'' ''doc-d'' ''ai-notary-agent-v1'' 10 three_verified)
                ''tx-1'' = Some tx'
        \<and> (if required_kinds_verified (documents tx')
            then status tx' = PAYMENT_PENDING
               \<and> changes (drop (length (auditLog three_verified_tx)) (auditLog tx')) =
                   [(Some DOCUMENTS_PENDING, Some DOCUMENTS_VERIFIED),
                    (Some DOCUMENTS_VERIFIED, Some PAYMENT_PENDING)]
            else status tx' = DOCUMENTS_PENDING
               \<and> changes (drop (length (auditLog three_verified_tx)) (auditLog tx')) = []))
    \<and> status_of (snd (verifyDocument ''tx-1'' ''doc-d'' ''ai-notary-agent-v1'' 10 three_verified))
         ''tx-1'' = Some PAYMENT_PENDING)
   \<and> (uploaded ''tx-1'' = Some uploaded_tx
    \<and> status uploaded_tx = DOCUMENTS_PENDING
    \<and> fst (verifyDocument ''tx-1'' ''doc-a'' ''ai-notary-agent-v1'' 7 uploaded) = Inr ()
    \<and> (\<exists>tx'. snd (verifyDocument ''tx-1'' ''doc-a'' ''ai-notary-agent-v1'' 7 uploaded) ''tx-1'' =
                Some tx'
        \<and> (if required_kinds_verified (documents tx')
            then status tx' = PAYMENT_PENDING
               \<and> changes (drop (length (auditLog uploaded_tx)) (auditLog tx')) =
                   [(Some DOCUMENTS_PENDING, Some DOCUMENTS_VERIFIED),
                    (Some DOCUMENTS_VERIFIED, Some PAYMENT_PENDING)]
            else status tx' = DOCUMENTS_PENDING
               \<and> changes (drop (length (auditLog uploaded_tx)) (auditLog tx')) = []))
    \<and> status_of (snd (verifyDocument ''tx-1'' ''doc-a'' ''ai-notary-agent-v1'' 7 uploaded))
         ''tx-1'' = Some DOCUMENTS_PENDING)"
proof -
  have h1: "three_verified ''tx-1'' = Some three_verified_tx
    \<and> status three_verified_tx = DOCUMENTS_PENDING
    \<and> fst (verifyDocument ''tx-1'' ''doc-d'' ''ai-notary-agent-v1'' 10 three_verified) = Inr ()"
    by code_simp
  have e1: "status_of (snd (verifyDocument ''tx-1'' ''doc-d'' ''ai-notary-agent-v1'' 10
              three_verified)) ''tx-1'' = Some PAYMENT_PENDING"
    by code_simp
  have h2: "uploaded ''tx-1'' = Some uploaded_tx
    \<and> status uploaded_tx = DOCUMENTS_PENDING
    \<and> fst (verifyDocument ''tx-1'' ''doc-a'' ''ai-notary-agent-v1'' 7 uploaded) = Inr ()"
    by code_simp
  have e2: "status_of (snd (verifyDocument ''tx-1'' ''doc-a'' ''ai-notary-agent-v1'' 7 uploaded))
         ''tx-1'' = Some DOCUMENTS_PENDING"
    by code_simp
  from h1 e1 h2 e2
    verifyDocument_advances
      [of three_verified "''tx-1''" three_verified_tx "''doc-d''" "''ai-notary-agent-v1''" 10,
       THEN conjunct1]
    verifyDocument_advances
      [of uploaded "''tx-1''" uploaded_tx "''doc-a''" "''ai-notary-agent-v1''" 7,
       THEN conjunct1]
  show ?thesis by blast
qed

section \<open>After a cancellation\<close>

lemma cancel_unless_completed:
  "s tid = Some tx \<Longrightarrow>
   (if status tx = COMPLETED
    then cancelTransaction tid act reason now s = (Inl CannotCancelCompleted, s)
    else \<exists>tx'. fst (cancelTransaction tid act reason now s) = Inr ()
           \<and> snd (cancelTransaction tid act reason now s) tid = Some tx'
           \<and> status tx' = CANCELLED \<and> cancelledAt tx' = Some now
           \<and> description (last (auditLog tx')) = CancelledBecause reason)"
  by (simp add: cancelTransaction_def helper_defs Let_def)

text \<open>
  Claim C2, evaluated on the code. In the demo's second scenario (initiate, open escrow,
  upload two of the four required documents, cancel) the transaction is \<open>CANCELLED\<close>
  and its title deed is unverified. The claim has the following \<open>verifyDocument\<close> fail
  with an invalid-state error; the call succeeds and verifies the document.
\<close>

theorem verify_accepted_after_cancel:
  "status_of cancelled ''tx-1'' = Some CANCELLED
   \<and> map_option verified (found_document cancelled ''tx-1'' ''doc-a'') = Some False
   \<and> failure (VerifyDocument ''tx-1'' ''doc-a'' ''ai-notary-agent-v1'' 6) cancelled = None
   \<and> map_option verified
       (found_document (exec (VerifyDocument ''tx-1'' ''doc-a'' ''ai-notary-agent-v1'' 6) cancelled)
          ''tx-1'' ''doc-a'') = Some True"
  by code_simp

text \<open>
  Claim C9, evaluated on the code. \<open>cancelTransaction\<close> fails on a \<open>COMPLETED\<close>
  transaction and on no other (lemma \<open>cancel_unless_completed\<close>), but the
  \<open>CANCELLED\<close> phase it sets is not terminal: a transaction cancelled with its four
  required documents uploaded is taken to \<open>PAYMENT_PENDING\<close> by verifying them.
\<close>

theorem cancelled_is_left:
  "status_of cancelled_unfunded ''tx-1'' = Some CANCELLED
   \<and> status_of (execs verify_required cancelled_unfunded) ''tx-1'' = Some PAYMENT_PENDING"
  by code_simp

end
